theory Spec2Isabelle
  imports Main "HOL-Library.AList"
begin

section \<open>Request values\<close>

text \<open>
  The controllers read \<open>req.params.id\<close> (a string taken from the route) and the fields of
  \<open>req.body\<close>. A body field is a JavaScript value: absent (\<open>undefined\<close>), a string, an
  array of strings (a repeated form field), and, once the \<open>toDate\<close> sanitizer has run,
  a date (kept here by its ISO text) or \<open>null\<close>.
\<close>

datatype jsval = Undefined | Null | Str string | Date string | Arr "string list"

type_synonym body = "(string \<times> jsval) list"

record request =
  params_id :: string
  body :: body

definition field :: "body \<Rightarrow> string \<Rightarrow> jsval" where
  "field b k = (case map_of b k of None \<Rightarrow> Undefined | Some v \<Rightarrow> v)"

text \<open>JavaScript truthiness, as used by \<open>!req.body.due_back\<close> and by \<open>checkFalsy\<close>.\<close>

fun falsy :: "jsval \<Rightarrow> bool" where
  "falsy Undefined = True"
| "falsy Null = True"
| "falsy (Str s) = (s = [])"
| "falsy (Date d) = False"
| "falsy (Arr xs) = False"

text \<open>
  The loose comparison \<open>v != s\<close> of a body value with a string literal: a string compares
  by its characters, an array by its elements joined with commas, and \<open>undefined\<close>,
  \<open>null\<close> and a date never equal the literals compared in the controllers.
\<close>

fun join_comma :: "string list \<Rightarrow> string" where
  "join_comma [] = []"
| "join_comma [x] = x"
| "join_comma (x # y # r) = x @ '','' @ join_comma (y # r)"

fun loose_neq :: "jsval \<Rightarrow> string \<Rightarrow> bool" where
  "loose_neq (Str t) s = (t \<noteq> s)"
| "loose_neq (Arr xs) s = (join_comma xs \<noteq> s)"
| "loose_neq v s = True"

section \<open>The validation library as the controllers use it\<close>

text \<open>
  The controllers declare their field rules with express-validator chains. The chains are
  part of the controllers; the sanitizers and validators they name belong to the library.
  They are written out here as the library documents them: \<open>trim\<close> strips white space from
  both ends, \<open>escape\<close> replaces the eight HTML-sensitive characters by entities (each
  replacement contains none of the characters replaced later, so one pass per character
  equals the library's successive replacements), \<open>isLength({min: n})\<close> asks for at least
  \<open>n\<close> characters, \<open>isAlphanumeric\<close> for a non-empty run of ASCII letters and digits.
\<close>

definition whitespace :: "char \<Rightarrow> bool" where
  "whitespace c = (c = CHR 0x09 \<or> c = CHR 0x0A \<or> c = CHR 0x0B \<or> c = CHR 0x0C
                   \<or> c = CHR 0x0D \<or> c = CHR 0x20 \<or> c = CHR 0xA0)"

definition trim :: "string \<Rightarrow> string" where
  "trim s = rev (dropWhile whitespace (rev (dropWhile whitespace s)))"

definition escape_char :: "char \<Rightarrow> string" where
  "escape_char c =
     (if c = CHR ''&'' then ''&amp;''
      else if c = CHR 0x22 then ''&quot;''
      else if c = CHR 0x27 then ''&#x27;''
      else if c = CHR ''<'' then ''&lt;''
      else if c = CHR ''>'' then ''&gt;''
      else if c = CHR ''/'' then ''&#x2F;''
      else if c = CHR 0x5C then ''&#x5C;''
      else if c = CHR 0x60 then ''&#96;''
      else [c])"

definition escape :: "string \<Rightarrow> string" where
  "escape s = concat (map escape_char s)"

definition isLength :: "nat \<Rightarrow> string \<Rightarrow> bool" where
  "isLength n s = (n \<le> length s)"

definition alnum :: "char \<Rightarrow> bool" where
  "alnum c = (let n = (of_char c :: nat)
              in (48 \<le> n \<and> n \<le> 57) \<or> (65 \<le> n \<and> n \<le> 90) \<or> (97 \<le> n \<and> n \<le> 122))"

definition isAlphanumeric :: "string \<Rightarrow> bool" where
  "isAlphanumeric s = (s \<noteq> [] \<and> list_all alnum s)"

text \<open>
  The date checks \<open>isISO8601\<close> and \<open>isDate\<close> and the conversion \<open>toDate\<close> are the
  library's; the controllers only name them. They are parameters of every handler that
  names them, so that each result below holds whatever strings they accept.
\<close>

record dates =
  isISO8601 :: "string \<Rightarrow> bool"
  isDate :: "string \<Rightarrow> bool"
  toDate :: "string \<Rightarrow> jsval"

text \<open>
  A validator or sanitizer reads its field through the library's \<open>toString\<close>: an absent
  or \<open>null\<close> value is the empty string, an array is its first element (the empty string
  when it has none).
\<close>

fun toString :: "jsval \<Rightarrow> string" where
  "toString Undefined = []"
| "toString Null = []"
| "toString (Str s) = s"
| "toString (Date d) = d"
| "toString (Arr []) = []"
| "toString (Arr (x # xs)) = x"

record fielderror =
  val :: jsval
  msg :: string
  param :: string
  location :: string

datatype step = Sanitizer "string \<Rightarrow> jsval" | Validator "string \<Rightarrow> bool" | WithMessage string

text \<open>
  \<open>withMessage\<close> sets the message of the last validator before it in the chain;
  sanitizers in between do not count. A validator without one takes the message given to
  \<open>body(field, message)\<close>, and \<open>Invalid value\<close> when there is none.
\<close>

fun own_message :: "step list \<Rightarrow> string option" where
  "own_message [] = None"
| "own_message (WithMessage m # r) = Some m"
| "own_message (Sanitizer g # r) = own_message r"
| "own_message (Validator p # r) = None"

definition message :: "string option \<Rightarrow> step list \<Rightarrow> string" where
  "message d r =
     (case own_message r of
        Some m \<Rightarrow> m
      | None \<Rightarrow> (case d of Some m \<Rightarrow> m | None \<Rightarrow> ''Invalid value''))"

fun run_chain :: "string \<Rightarrow> string option \<Rightarrow> step list \<Rightarrow> jsval \<Rightarrow> fielderror list
                  \<Rightarrow> jsval \<times> fielderror list" where
  "run_chain f d [] v es = (v, es)"
| "run_chain f d (Sanitizer g # r) v es = run_chain f d r (g (toString v)) es"
| "run_chain f d (Validator p # r) v es =
     run_chain f d r v
       (if p (toString v) then es
        else es @ [\<lparr>val = v, msg = message d r, param = f, location = ''body''\<rparr>])"
| "run_chain f d (WithMessage m # r) v es = run_chain f d r v es"

text \<open>
  One \<open>body(field, message)\<close> chain run on the request: an optional field
  (\<open>optional({checkFalsy: true})\<close>) whose value is falsy is left alone; otherwise the
  chain runs, its errors are added to the request's, and the sanitized value is written
  back to the body when it differs from the submitted one.
\<close>

definition body_chain :: "string \<Rightarrow> string option \<Rightarrow> bool \<Rightarrow> step list
                          \<Rightarrow> body \<times> fielderror list \<Rightarrow> body \<times> fielderror list" where
  "body_chain f d opt chain s =
     (let b = fst s; es = snd s; v = field b f
      in if opt \<and> falsy v then (b, es)
         else (let r = run_chain f d chain v es
               in (if fst r = v then b else AList.update f (fst r) b, snd r)))"

text \<open>
  \<open>body("genre.*").escape()\<close>: the wildcard selects every element of the array, and each
  element is escaped in place.
\<close>

definition escape_each :: "string \<Rightarrow> body \<times> fielderror list \<Rightarrow> body \<times> fielderror list" where
  "escape_each f s =
     (case field (fst s) f of
        Arr xs \<Rightarrow> (if map escape xs = xs then s
                   else (AList.update f (Arr (map escape xs)) (fst s), snd s))
      | v \<Rightarrow> s)"

definition validationResult :: "(body \<times> fielderror list \<Rightarrow> body \<times> fielderror list) list
                                \<Rightarrow> body \<Rightarrow> body \<times> fielderror list" where
  "validationResult rules b = fold (\<lambda>c s. c s) rules (b, [])"

section \<open>Documents and the store\<close>

text \<open>
  The four collections. A document is a record of its identifier and the field values
  given to the model's constructor; the casts, defaults and validators of the schemas
  belong to the model files and the ORM and are not part of the controllers, so a field
  holds the value the controller passed, and every store operation is taken to succeed.
  Identifiers are strings, and every string is taken to be a well-formed identifier.
\<close>

record author =
  author_id :: string
  first_name :: jsval
  family_name :: jsval
  date_of_birth :: jsval
  date_of_death :: jsval

record book =
  book_id :: string
  title :: jsval
  book_author :: jsval
  summary :: jsval
  isbn :: jsval
  book_genre :: jsval

record genre =
  genre_id :: string
  name :: jsval

record bookinstance =
  instance_id :: string
  instance_book :: jsval
  imprint :: jsval
  status :: jsval
  due_back :: jsval

record store =
  authors :: "author list"
  books :: "book list"
  genres :: "genre list"
  bookinstances :: "bookinstance list"

datatype collection = Author | Book | Genre | BookInstance

text \<open>The writes a handler issues, in order.\<close>

datatype dbwrite =
  Save collection string
| FindByIdAndUpdate collection string
| FindByIdAndRemove collection jsval

fun remove_first :: "('a \<Rightarrow> bool) \<Rightarrow> 'a list \<Rightarrow> 'a list" where
  "remove_first P [] = []"
| "remove_first P (x # xs) = (if P x then xs else x # remove_first P xs)"

fun replace_first :: "('a \<Rightarrow> bool) \<Rightarrow> 'a \<Rightarrow> 'a list \<Rightarrow> 'a list" where
  "replace_first P y [] = []"
| "replace_first P y (x # xs) = (if P x then y # xs else x # replace_first P y xs)"

text \<open>\<open>Model.findById(id)\<close>: the document with that identifier, or \<open>null\<close>.\<close>

definition Author_findById :: "store \<Rightarrow> jsval \<Rightarrow> author option" where
  "Author_findById st i = find (\<lambda>a. Str (author_id a) = i) (authors st)"

definition Book_findById :: "store \<Rightarrow> jsval \<Rightarrow> book option" where
  "Book_findById st i = find (\<lambda>b. Str (book_id b) = i) (books st)"

definition Genre_findById :: "store \<Rightarrow> jsval \<Rightarrow> genre option" where
  "Genre_findById st i = find (\<lambda>g. Str (genre_id g) = i) (genres st)"

definition BookInstance_findById :: "store \<Rightarrow> jsval \<Rightarrow> bookinstance option" where
  "BookInstance_findById st i = find (\<lambda>c. Str (instance_id c) = i) (bookinstances st)"

text \<open>The references a field holds: those of an array, or the one of a scalar.\<close>

fun elements :: "jsval \<Rightarrow> jsval list" where
  "elements (Arr xs) = map Str xs"
| "elements v = [v]"

text \<open>
  \<open>Book.find({author: id})\<close>, \<open>Book.find({genre: id})\<close> (a book matches when its genre
  array holds the identifier) and \<open>BookInstance.find({book: id})\<close>.
\<close>

definition Book_find_author :: "store \<Rightarrow> jsval \<Rightarrow> book list" where
  "Book_find_author st i = filter (\<lambda>b. book_author b = i) (books st)"

definition Book_find_genre :: "store \<Rightarrow> jsval \<Rightarrow> book list" where
  "Book_find_genre st i = filter (\<lambda>b. i \<in> set (elements (book_genre b))) (books st)"

definition BookInstance_find_book :: "store \<Rightarrow> jsval \<Rightarrow> bookinstance list" where
  "BookInstance_find_book st i = filter (\<lambda>c. instance_book c = i) (bookinstances st)"

text \<open>\<open>Genre.findOne({name: n})\<close>: the first genre whose name is exactly \<open>n\<close>.\<close>

definition Genre_findOne_name :: "store \<Rightarrow> jsval \<Rightarrow> genre option" where
  "Genre_findOne_name st n = find (\<lambda>g. name g = n) (genres st)"

text \<open>The projections \<open>"title summary"\<close> and \<open>"title"\<close> of \<open>Book.find\<close>.\<close>

definition title_summary :: "book \<Rightarrow> book" where
  "title_summary b = b\<lparr>book_author := Undefined, isbn := Undefined, book_genre := Undefined\<rparr>"

definition title_only :: "book \<Rightarrow> book" where
  "title_only b = b\<lparr>book_author := Undefined, summary := Undefined, isbn := Undefined,
                    book_genre := Undefined\<rparr>"

text \<open>
  \<open>populate\<close> resolves a reference to the document it names (\<open>null\<close> when there is none)
  and an array of references to the documents found.
\<close>

definition populate_genres :: "store \<Rightarrow> jsval \<Rightarrow> genre list" where
  "populate_genres st v = List.map_filter (Genre_findById st) (elements v)"

text \<open>\<open>Model.findByIdAndRemove(id)\<close> deletes the document with that identifier, if any.\<close>

definition Author_findByIdAndRemove :: "jsval \<Rightarrow> store \<Rightarrow> store" where
  "Author_findByIdAndRemove i st =
     st\<lparr>authors := remove_first (\<lambda>a. Str (author_id a) = i) (authors st)\<rparr>"

definition Book_findByIdAndRemove :: "jsval \<Rightarrow> store \<Rightarrow> store" where
  "Book_findByIdAndRemove i st =
     st\<lparr>books := remove_first (\<lambda>b. Str (book_id b) = i) (books st)\<rparr>"

definition Genre_findByIdAndRemove :: "jsval \<Rightarrow> store \<Rightarrow> store" where
  "Genre_findByIdAndRemove i st =
     st\<lparr>genres := remove_first (\<lambda>g. Str (genre_id g) = i) (genres st)\<rparr>"

definition BookInstance_findByIdAndRemove :: "jsval \<Rightarrow> store \<Rightarrow> store" where
  "BookInstance_findByIdAndRemove i st =
     st\<lparr>bookinstances := remove_first (\<lambda>c. Str (instance_id c) = i) (bookinstances st)\<rparr>"

text \<open>
  \<open>Model.findByIdAndUpdate(id, doc, {})\<close> returns the document found under \<open>id\<close>
  (\<open>null\<close> when there is none, and then writes nothing) and puts the candidate in its
  place.
\<close>

definition Author_findByIdAndUpdate :: "string \<Rightarrow> author \<Rightarrow> store \<Rightarrow> author option \<times> store" where
  "Author_findByIdAndUpdate i d st =
     (Author_findById st (Str i),
      st\<lparr>authors := replace_first (\<lambda>a. author_id a = i) d (authors st)\<rparr>)"

definition Book_findByIdAndUpdate :: "string \<Rightarrow> book \<Rightarrow> store \<Rightarrow> book option \<times> store" where
  "Book_findByIdAndUpdate i d st =
     (Book_findById st (Str i),
      st\<lparr>books := replace_first (\<lambda>b. book_id b = i) d (books st)\<rparr>)"

definition Genre_findByIdAndUpdate :: "string \<Rightarrow> genre \<Rightarrow> store \<Rightarrow> genre option \<times> store" where
  "Genre_findByIdAndUpdate i d st =
     (Genre_findById st (Str i),
      st\<lparr>genres := replace_first (\<lambda>g. genre_id g = i) d (genres st)\<rparr>)"

definition BookInstance_findByIdAndUpdate ::
    "string \<Rightarrow> bookinstance \<Rightarrow> store \<Rightarrow> bookinstance option \<times> store" where
  "BookInstance_findByIdAndUpdate i d st =
     (BookInstance_findById st (Str i),
      st\<lparr>bookinstances := replace_first (\<lambda>c. instance_id c = i) d (bookinstances st)\<rparr>)"

text \<open>
  Modelled from the spec: the \<open>url\<close> virtual of the model files, which are not among the
  sources. Each entity's canonical location is a derived path of the shape
  \<open>/catalog/<entity-plural>/<id>\<close>.
\<close>

definition plural :: "collection \<Rightarrow> string" where
  "plural c = (case c of Author \<Rightarrow> ''authors'' | Book \<Rightarrow> ''books'' | Genre \<Rightarrow> ''genres''
               | BookInstance \<Rightarrow> ''bookinstances'')"

definition url :: "collection \<Rightarrow> string \<Rightarrow> string" where
  "url c i = ''/catalog/'' @ plural c @ ''/'' @ i"

text \<open>
  Modelled from the spec: the enumerated values of \<open>status\<close> in the BookInstance schema,
  which the controller reads from the model: Available, Maintenance, Loaned, Reserved.
\<close>

definition enumValues :: "string list" where
  "enumValues = [''Available'', ''Maintenance'', ''Loaned'', ''Reserved'']"

text \<open>
  Modelled from the spec: the BookInstance schema of the model files, which are not among
  the sources, declares \<open>book\<close> as a reference to a Book. Reading \<open>bookinstance.book\<close>
  gives the identifier the submitted value was cast to, and \<open>undefined\<close> when it could
  not be cast. Which strings are identifiers is the ORM's matter and is the parameter
  \<open>oid\<close>; the empty string is none.
\<close>

definition reference :: "(string \<Rightarrow> bool) \<Rightarrow> jsval \<Rightarrow> jsval" where
  "reference oid v =
     (case v of
        Str s \<Rightarrow> (if s \<noteq> [] \<and> oid s then Str s else Undefined)
      | Null \<Rightarrow> Null
      | w \<Rightarrow> Undefined)"

section \<open>What a handler does\<close>

text \<open>
  A handler answers through \<open>res.render(view, data)\<close>, \<open>res.redirect(location)\<close> or
  \<open>next(err)\<close>. Its outcome is the list of these calls in the order it makes them, the
  store it leaves and the writes it issued. The response the client receives is the one of
  the first call: once a response is sent, a later call cannot replace it.
\<close>

datatype data =
  DStr string
| DNull
| DJs jsval
| DConcat string jsval
| DBody body
| DErrors "fielderror list"
| DStrs "string list"
| DAuthor author
| DAuthors "author list"
| DBook book
| DBooks "book list"
| DBookPop book "author option" "genre list"
| DGenre genre
| DGenres "(genre \<times> bool) list"
| DInstance bookinstance
| DInstances "bookinstance list"
| DInstancePop bookinstance "book option"

datatype error = Status nat string | TypeError string

datatype call = Render string "(string \<times> data) list" | Redirect string | Next error

record outcome =
  calls :: "call list"
  db :: store
  writes :: "dbwrite list"

definition response :: "outcome \<Rightarrow> call option" where
  "response out = (case calls out of [] \<Rightarrow> None | c # cs \<Rightarrow> Some c)"

definition reply :: "store \<Rightarrow> call list \<Rightarrow> outcome" where
  "reply st cs = \<lparr>calls = cs, db = st, writes = []\<rparr>"

definition nullable :: "('a \<Rightarrow> data) \<Rightarrow> 'a option \<Rightarrow> data" where
  "nullable D x = (case x of None \<Rightarrow> DNull | Some d \<Rightarrow> D d)"

text \<open>
  \<open>x._id\<close>: reading the property of \<open>undefined\<close> or \<open>null\<close> throws; the \<open>_id\<close> of an
  identifier is the identifier.
\<close>

definition get_id :: "jsval \<Rightarrow> error + jsval" where
  "get_id v =
     (case v of
        Undefined \<Rightarrow> Inl (TypeError ''_id'')
      | Null \<Rightarrow> Inl (TypeError ''_id'')
      | w \<Rightarrow> Inr w)"

text \<open>
  Reading a property of \<open>null\<close> throws a TypeError, which the handler's \<open>catch\<close> hands
  to \<open>next\<close>; \<open>TypeError p\<close> is the one thrown when property \<open>p\<close> is read.
\<close>

section \<open>Detail pages\<close>

definition author_detail :: "store \<Rightarrow> request \<Rightarrow> outcome" where
  "author_detail st req =
     (let author = Author_findById st (Str (params_id req));
          authors_books = map title_summary (Book_find_author st (Str (params_id req)))
      in case author of
           None \<Rightarrow> reply st [Next (Status 404 ''Author not found'')]
         | Some a \<Rightarrow>
             reply st [Render ''author_detail''
               [(''title'', DStr ''Author Detail''),
                (''author'', DAuthor a),
                (''authors_books'', DBooks authors_books)]])"

definition book_detail :: "store \<Rightarrow> request \<Rightarrow> outcome" where
  "book_detail st req =
     (let book = Book_findById st (Str (params_id req));
          book_instance = BookInstance_find_book st (Str (params_id req))
      in case book of
           None \<Rightarrow> reply st [Next (Status 404 ''Book not found'')]
         | Some b \<Rightarrow>
             reply st [Render ''book_detail''
               [(''title'', DJs (title b)),
                (''book'', DBookPop b (Author_findById st (book_author b))
                                      (populate_genres st (book_genre b))),
                (''book_instances'', DInstances book_instance)]])"

definition genre_detail :: "store \<Rightarrow> request \<Rightarrow> outcome" where
  "genre_detail st req =
     (let genre = Genre_findById st (Str (params_id req));
          genre_books = Book_find_genre st (Str (params_id req))
      in case genre of
           None \<Rightarrow> reply st [Next (Status 404 ''Genre not found'')]
         | Some g \<Rightarrow>
             reply st [Render ''genre_detail''
               [(''title'', DStr ''Genre Detail''),
                (''genre'', DGenre g),
                (''genre_books'', DBooks genre_books)]])"

definition bookinstance_detail :: "store \<Rightarrow> request \<Rightarrow> outcome" where
  "bookinstance_detail st req =
     (let bookinstance = BookInstance_findById st (Str (params_id req))
      in case bookinstance of
           None \<Rightarrow> reply st [Next (Status 404 ''Book copy not found'')]
         | Some c \<Rightarrow>
             (case Book_findById st (instance_book c) of
                None \<Rightarrow> reply st [Next (TypeError ''title'')]
              | Some b \<Rightarrow>
                  reply st [Render ''bookinstance_detail''
                    [(''title'', DConcat ''Copy: '' (title b)),
                     (''bookinstance'', DInstancePop c (Some b))]]))"

section \<open>Delete: the confirmation page and the deletion\<close>

text \<open>
  In the four \<open>delete_get\<close> handlers the branch for a missing document calls
  \<open>res.redirect\<close> and does not return, so the call of \<open>res.render\<close> after it is made
  as well.
\<close>

definition author_delete_get :: "store \<Rightarrow> request \<Rightarrow> outcome" where
  "author_delete_get st req =
     (let author = Author_findById st (Str (params_id req));
          author_books = Book_find_author st (Str (params_id req))
      in reply st
           ((if author = None then [Redirect ''/catalog/authors''] else []) @
            [Render ''author_delete''
               [(''title'', DStr ''Delete Author''),
                (''author'', nullable DAuthor author),
                (''author_books'', DBooks author_books)]]))"

definition book_delete_get :: "store \<Rightarrow> request \<Rightarrow> outcome" where
  "book_delete_get st req =
     (let book = Book_findById st (Str (params_id req));
          book_instances = BookInstance_find_book st (Str (params_id req))
      in reply st
           ((if book = None then [Redirect ''/catalog/books''] else []) @
            [Render ''book_delete''
               [(''title'', DStr ''Delete Book''),
                (''book'', nullable DBook book),
                (''book_instances'', DInstances book_instances)]]))"

definition genre_delete_get :: "store \<Rightarrow> request \<Rightarrow> outcome" where
  "genre_delete_get st req =
     (let genre = Genre_findById st (Str (params_id req));
          genre_books = Book_find_genre st (Str (params_id req))
      in reply st
           ((if genre = None then [Redirect ''/catalog/genres''] else []) @
            [Render ''genre_delete''
               [(''title'', DStr ''Delete Genre''),
                (''genre'', nullable DGenre genre),
                (''genre_books'', DBooks genre_books)]]))"

definition bookinstance_delete_get :: "store \<Rightarrow> request \<Rightarrow> outcome" where
  "bookinstance_delete_get st req =
     (let bookinstance = BookInstance_findById st (Str (params_id req))
      in reply st
           ((if bookinstance = None then [Redirect ''/catalog/bookinstances''] else []) @
            [Render ''bookinstance_delete''
               [(''title'', DStr ''Delete Book Instance''),
                (''bookinstance'',
                   nullable (\<lambda>c. DInstancePop c (Book_findById st (instance_book c)))
                     bookinstance)]]))"

definition author_delete_post :: "store \<Rightarrow> request \<Rightarrow> outcome" where
  "author_delete_post st req =
     (let author = Author_findById st (field (body req) ''authorid'');
          author_books = Book_find_author st (field (body req) ''authorid'')
      in if length author_books > 0
         then reply st [Render ''author_delete''
                 [(''title'', DStr ''Delete Author''),
                  (''author'', nullable DAuthor author),
                  (''author_books'', DBooks author_books)]]
         else \<lparr>calls = [Redirect ''/catalog/authors''],
               db = Author_findByIdAndRemove (field (body req) ''authorid'') st,
               writes = [FindByIdAndRemove Author (field (body req) ''authorid'')]\<rparr>)"

definition book_delete_post :: "store \<Rightarrow> request \<Rightarrow> outcome" where
  "book_delete_post st req =
     (let book = Book_findById st (Str (params_id req));
          book_instances = BookInstance_find_book st (Str (params_id req))
      in if length book_instances > 0
         then reply st [Render ''book_delete''
                 [(''title'', DStr ''Delete Book''),
                  (''book'', nullable DBook book),
                  (''book_instances'', DInstances book_instances)]]
         else \<lparr>calls = [Redirect ''/catalog/books''],
               db = Book_findByIdAndRemove (field (body req) ''bookid'') st,
               writes = [FindByIdAndRemove Book (field (body req) ''bookid'')]\<rparr>)"

definition genre_delete_post :: "store \<Rightarrow> request \<Rightarrow> outcome" where
  "genre_delete_post st req =
     (let genre = Genre_findById st (Str (params_id req));
          genre_books = Book_find_genre st (Str (params_id req))
      in if length genre_books > 0
         then reply st [Render ''genre_delete''
                 [(''title'', DStr ''Delete Genre''),
                  (''genre'', nullable DGenre genre),
                  (''genre_books'', DBooks genre_books)]]
         else \<lparr>calls = [Redirect ''/catalog/genres''],
               db = Genre_findByIdAndRemove (field (body req) ''genreid'') st,
               writes = [FindByIdAndRemove Genre (field (body req) ''genreid'')]\<rparr>)"

definition bookinstance_delete_post :: "store \<Rightarrow> request \<Rightarrow> outcome" where
  "bookinstance_delete_post st req =
     \<lparr>calls = [Redirect ''/catalog/bookinstances''],
      db = BookInstance_findByIdAndRemove (field (body req) ''bookinstanceid'') st,
      writes = [FindByIdAndRemove BookInstance (field (body req) ''bookinstanceid'')]\<rparr>"

section \<open>Update: the form\<close>

definition author_update_get :: "store \<Rightarrow> request \<Rightarrow> outcome" where
  "author_update_get st req =
     (let author = Author_findById st (Str (params_id req))
      in case author of
           None \<Rightarrow> reply st [Next (Status 404 ''Book not found'')]
         | Some a \<Rightarrow>
             reply st [Render ''author_form''
               [(''title'', DStr ''Update Author''), (''author'', DAuthor a)]])"

text \<open>
  The two nested loops of \<open>book_update_get\<close> mark a genre as checked when its identifier
  is that of one of the book's populated genres.
\<close>

definition book_update_get :: "store \<Rightarrow> request \<Rightarrow> outcome" where
  "book_update_get st req =
     (let book = Book_findById st (Str (params_id req));
          authors = authors st;
          genres = genres st
      in case book of
           None \<Rightarrow> reply st [Next (Status 404 ''Book not found'')]
         | Some b \<Rightarrow>
             (let populated = populate_genres st (book_genre b)
              in reply st [Render ''book_form''
                   [(''title'', DStr ''Update Book''),
                    (''authors'', DAuthors authors),
                    (''genres'',
                       DGenres (map (\<lambda>g. (g, genre_id g \<in> set (map genre_id populated)))
                                  genres)),
                    (''book'', DBookPop b (Author_findById st (book_author b)) populated)]]))"

definition genre_update_get :: "store \<Rightarrow> request \<Rightarrow> outcome" where
  "genre_update_get st req =
     reply st [Render ''genre_form'' [(''title'', DStr ''Update Genre'')]]"

definition bookinstance_update_get :: "store \<Rightarrow> request \<Rightarrow> outcome" where
  "bookinstance_update_get st req =
     (let bookinstance = BookInstance_findById st (Str (params_id req));
          statuses = enumValues;
          books = books st
      in case bookinstance of
           None \<Rightarrow> reply st [Next (Status 404 ''Book not found'')]
         | Some c \<Rightarrow>
             reply st [Render ''bookinstance_form''
               [(''title'', DStr ''Update Book Instance''),
                (''books'', DBooks books),
                (''bookinstance'', DInstancePop c (Book_findById st (instance_book c))),
                (''statuses'', DStrs statuses)]])"

section \<open>Create and update: the field rules\<close>

definition name_chain :: "string \<Rightarrow> string \<Rightarrow> step list" where
  "name_chain missing bad =
     [Sanitizer (\<lambda>s. Str (trim s)), Validator (isLength 1), Sanitizer (\<lambda>s. Str (escape s)),
      WithMessage missing, Validator isAlphanumeric, WithMessage bad]"

definition required_chain :: "step list" where
  "required_chain =
     [Sanitizer (\<lambda>s. Str (trim s)), Validator (isLength 1), Sanitizer (\<lambda>s. Str (escape s))]"

definition author_rules :: "dates \<Rightarrow> (body \<times> fielderror list \<Rightarrow> body \<times> fielderror list) list" where
  "author_rules L =
     [body_chain ''first_name'' None False
        (name_chain ''First name must be specified.''
                    ''First name has non-alphanumeric characters.''),
      body_chain ''family_name'' None False
        (name_chain ''Family name must be specified.''
                    ''Family name has non-alphanumeric characters.''),
      body_chain ''date_of_birth'' (Some ''Invalid date of birth'') True
        [Validator (isISO8601 L), Sanitizer (toDate L)],
      body_chain ''date_of_death'' (Some ''Invalid date of death'') True
        [Validator (isISO8601 L), Sanitizer (toDate L)]]"

text \<open>
  The first middleware of the book handlers turns the genre selection into an array: none
  into the empty array, a single value into the array of it. (A parsed form holds strings
  and arrays; another value is taken as the validators would read it.)
\<close>

definition genre_to_array :: "body \<Rightarrow> body" where
  "genre_to_array b =
     (case field b ''genre'' of
        Arr xs \<Rightarrow> b
      | Undefined \<Rightarrow> AList.update ''genre'' (Arr []) b
      | v \<Rightarrow> AList.update ''genre'' (Arr [toString v]) b)"

definition book_rules :: "(body \<times> fielderror list \<Rightarrow> body \<times> fielderror list) list" where
  "book_rules =
     [body_chain ''title'' (Some ''Title must not be empty.'') False required_chain,
      body_chain ''author'' (Some ''Author must not be empty.'') False required_chain,
      body_chain ''summary'' (Some ''Summary must not be empty.'') False required_chain,
      body_chain ''isbn'' (Some ''ISBN must not be empty'') False required_chain,
      escape_each ''genre'']"

definition genre_rules :: "(body \<times> fielderror list \<Rightarrow> body \<times> fielderror list) list" where
  "genre_rules = [body_chain ''name'' (Some ''Genre name required'') False required_chain]"

definition bookinstance_rules ::
    "dates \<Rightarrow> (body \<times> fielderror list \<Rightarrow> body \<times> fielderror list) list" where
  "bookinstance_rules L =
     [body_chain ''book'' (Some ''Book must be specified'') False required_chain,
      body_chain ''imprint'' (Some ''Imprint must be specified'') False required_chain,
      body_chain ''status'' None False [Sanitizer (\<lambda>s. Str (escape s))],
      body_chain ''due_back'' (Some ''Invalid date'') True
        [Validator (isDate L), Validator (isISO8601 L), Sanitizer (toDate L)]]"

text \<open>\<open>book.genre.indexOf(genres[i]._id) > -1\<close> on the candidate's genre array.\<close>

definition selected :: "jsval \<Rightarrow> string \<Rightarrow> bool" where
  "selected v i = (case v of Arr xs \<Rightarrow> i \<in> set xs | w \<Rightarrow> False)"

section \<open>Create\<close>

text \<open>
  A new document gets its identifier when the model's constructor runs; \<open>new_id\<close> is the
  identifier the ORM hands out for the request. In \<open>bookinstance_create_post\<close> the
  data of the form are built before \<open>res.render\<close> is called, and among them
  \<open>selected_book\<close> is \<open>bookinstance.book._id\<close>: when the candidate's book is no
  reference, building them throws, and the handler's \<open>catch\<close> calls \<open>next\<close>.
\<close>

definition author_create_post :: "dates \<Rightarrow> string \<Rightarrow> store \<Rightarrow> request \<Rightarrow> outcome" where
  "author_create_post L new_id st req =
     (let s = validationResult (author_rules L) (body req);
          b = fst s;
          errors = snd s
      in if errors \<noteq> []
         then reply st [Render ''author_form''
                 [(''title'', DStr ''Create Author''),
                  (''author'', DBody b),
                  (''errors'', DErrors errors)]]
         else (let author = \<lparr>author_id = new_id,
                              first_name = field b ''first_name'',
                              family_name = field b ''family_name'',
                              date_of_birth = field b ''date_of_birth'',
                              date_of_death = field b ''date_of_death''\<rparr>
               in \<lparr>calls = [Redirect (url Author (author_id author))],
                   db = st\<lparr>authors := authors st @ [author]\<rparr>,
                   writes = [Save Author (author_id author)]\<rparr>))"

definition book_create_post :: "string \<Rightarrow> store \<Rightarrow> request \<Rightarrow> outcome" where
  "book_create_post new_id st req =
     (let s = validationResult book_rules (genre_to_array (body req));
          b = fst s;
          errors = snd s;
          book = \<lparr>book_id = new_id,
                  title = field b ''title'',
                  book_author = field b ''author'',
                  summary = field b ''summary'',
                  isbn = field b ''isbn'',
                  book_genre = field b ''genre''\<rparr>
      in if errors \<noteq> []
         then reply st [Render ''book_form''
                 [(''title'', DStr ''Create Book''),
                  (''authors'', DAuthors (authors st)),
                  (''genres'',
                     DGenres (map (\<lambda>g. (g, selected (book_genre book) (genre_id g))) (genres st))),
                  (''book'', DBook book),
                  (''errors'', DErrors errors)]]
         else \<lparr>calls = [Redirect (url Book (book_id book))],
               db = st\<lparr>books := books st @ [book]\<rparr>,
               writes = [Save Book (book_id book)]\<rparr>)"

definition genre_create_post :: "string \<Rightarrow> store \<Rightarrow> request \<Rightarrow> outcome" where
  "genre_create_post new_id st req =
     (let s = validationResult genre_rules (body req);
          b = fst s;
          errors = snd s;
          genre = \<lparr>genre_id = new_id, name = field b ''name''\<rparr>
      in if errors \<noteq> []
         then reply st [Render ''genre_form''
                 [(''title'', DStr ''Create Genre''),
                  (''genre'', DGenre genre),
                  (''errors'', DErrors errors)]]
         else (case Genre_findOne_name st (field b ''name'') of
                 Some genreMatch \<Rightarrow> reply st [Redirect (url Genre (genre_id genreMatch))]
               | None \<Rightarrow>
                   \<lparr>calls = [Redirect (url Genre (genre_id genre))],
                    db = st\<lparr>genres := genres st @ [genre]\<rparr>,
                    writes = [Save Genre (genre_id genre)]\<rparr>))"

definition bookinstance_create_post ::
    "(string \<Rightarrow> bool) \<Rightarrow> dates \<Rightarrow> string \<Rightarrow> store \<Rightarrow> request \<Rightarrow> outcome" where
  "bookinstance_create_post oid L new_id st req =
     (let s = validationResult (bookinstance_rules L) (body req);
          b = fst s;
          errors = snd s;
          bookinstance = \<lparr>instance_id = new_id,
                          instance_book = field b ''book'',
                          imprint = field b ''imprint'',
                          status = field b ''status'',
                          due_back = field b ''due_back''\<rparr>
      in if errors \<noteq> []
         then (case get_id (reference oid (instance_book bookinstance)) of
                 Inl err \<Rightarrow> reply st [Next err]
               | Inr selected_book \<Rightarrow>
                   reply st [Render ''bookinstance_form''
                     [(''title'', DStr ''Create BookInstance''),
                      (''books'', DBooks (map title_only (books st))),
                      (''statuses'', DStrs enumValues),
                      (''selected_book'', DJs selected_book),
                      (''errors'', DErrors errors),
                      (''bookinstance'', DInstance bookinstance)]])
         else \<lparr>calls = [Redirect (url BookInstance (instance_id bookinstance))],
               db = st\<lparr>bookinstances := bookinstances st @ [bookinstance]\<rparr>,
               writes = [Save BookInstance (instance_id bookinstance)]\<rparr>)"

section \<open>Update\<close>

text \<open>
  The candidate takes \<open>req.params.id\<close> as its identifier. After a successful validation
  the handler redirects to \<open>url\<close> of what \<open>findByIdAndUpdate\<close> returned; reading
  \<open>url\<close> of \<open>null\<close> throws.
\<close>

definition author_update_post :: "dates \<Rightarrow> store \<Rightarrow> request \<Rightarrow> outcome" where
  "author_update_post L st req =
     (let s = validationResult (author_rules L) (body req);
          b = fst s;
          errors = snd s;
          author = \<lparr>author_id = params_id req,
                    first_name = field b ''first_name'',
                    family_name = field b ''family_name'',
                    date_of_birth = field b ''date_of_birth'',
                    date_of_death = field b ''date_of_death''\<rparr>
      in if errors \<noteq> []
         then reply st [Render ''author_form''
                 [(''title'', DStr ''Update Author''),
                  (''author'', DAuthor author),
                  (''errors'', DErrors errors)]]
         else (let r = Author_findByIdAndUpdate (params_id req) author st
               in \<lparr>calls = (case fst r of
                              None \<Rightarrow> [Next (TypeError ''url'')]
                            | Some newAuthor \<Rightarrow> [Redirect (url Author (author_id newAuthor))]),
                   db = snd r,
                   writes = [FindByIdAndUpdate Author (params_id req)]\<rparr>))"

definition book_update_post :: "store \<Rightarrow> request \<Rightarrow> outcome" where
  "book_update_post st req =
     (let s = validationResult book_rules (genre_to_array (body req));
          b = fst s;
          errors = snd s;
          book = \<lparr>book_id = params_id req,
                  title = field b ''title'',
                  book_author = field b ''author'',
                  summary = field b ''summary'',
                  isbn = field b ''isbn'',
                  book_genre = (case field b ''genre'' of Undefined \<Rightarrow> Arr [] | v \<Rightarrow> v)\<rparr>
      in if errors \<noteq> []
         then reply st [Render ''book_form''
                 [(''title'', DStr ''Update Book''),
                  (''authors'', DAuthors (authors st)),
                  (''genres'',
                     DGenres (map (\<lambda>g. (g, selected (book_genre book) (genre_id g))) (genres st))),
                  (''book'', DBook book),
                  (''errors'', DErrors errors)]]
         else (let r = Book_findByIdAndUpdate (params_id req) book st
               in \<lparr>calls = (case fst r of
                              None \<Rightarrow> [Next (TypeError ''url'')]
                            | Some newBook \<Rightarrow> [Redirect (url Book (book_id newBook))]),
                   db = snd r,
                   writes = [FindByIdAndUpdate Book (params_id req)]\<rparr>))"

definition genre_update_post :: "store \<Rightarrow> request \<Rightarrow> outcome" where
  "genre_update_post st req =
     (let s = validationResult genre_rules (body req);
          b = fst s;
          errors = snd s;
          genre = \<lparr>genre_id = params_id req, name = field b ''name''\<rparr>
      in if errors \<noteq> []
         then reply st [Render ''genre_form''
                 [(''title'', DStr ''Update Genre''),
                  (''genre'', DGenre genre),
                  (''errors'', DErrors errors)]]
         else (case Genre_findOne_name st (field b ''name'') of
                 Some genreMatch \<Rightarrow> reply st [Redirect (url Genre (genre_id genreMatch))]
               | None \<Rightarrow>
                   (let r = Genre_findByIdAndUpdate (params_id req) genre st
                    in \<lparr>calls = (case fst r of
                                   None \<Rightarrow> [Next (TypeError ''url'')]
                                 | Some newGenre \<Rightarrow> [Redirect (url Genre (genre_id newGenre))]),
                        db = snd r,
                        writes = [FindByIdAndUpdate Genre (params_id req)]\<rparr>)))"

text \<open>
  \<open>bookinstance_update_post\<close> adds an error of its own to the validation result when the
  status is not \<open>Available\<close> and there is no due date.
\<close>

definition dateErrow :: fielderror where
  "dateErrow = \<lparr>val = Str [], msg = ''Invalid date'', param = ''Due_back'', location = ''body''\<rparr>"

definition bookinstance_update_post :: "dates \<Rightarrow> store \<Rightarrow> request \<Rightarrow> outcome" where
  "bookinstance_update_post L st req =
     (let s = validationResult (bookinstance_rules L) (body req);
          b = fst s;
          errors = snd s @
            (if loose_neq (field b ''status'') ''Available'' \<and> falsy (field b ''due_back'')
             then [dateErrow] else []);
          bookinstance = \<lparr>instance_id = params_id req,
                          instance_book = field b ''book'',
                          imprint = field b ''imprint'',
                          status = field b ''status'',
                          due_back = field b ''due_back''\<rparr>
      in if errors \<noteq> []
         then reply st [Render ''bookinstance_form''
                 [(''title'', DStr ''Update Book Instance''),
                  (''books'', DBooks (books st)),
                  (''statuses'', DStrs enumValues),
                  (''bookinstance'', DInstance bookinstance),
                  (''errors'', DErrors errors)]]
         else (let r = BookInstance_findByIdAndUpdate (params_id req) bookinstance st
               in \<lparr>calls = (case fst r of
                              None \<Rightarrow> [Next (TypeError ''url'')]
                            | Some newBookinstance \<Rightarrow>
                                [Redirect (url BookInstance (instance_id newBookinstance))]),
                   db = snd r,
                   writes = [FindByIdAndUpdate BookInstance (params_id req)]\<rparr>))"

section \<open>Notions used in the statements\<close>

text \<open>
  What a required text field holds once its chain has run: the submitted value read as a
  string, trimmed, then escaped.
\<close>

definition sanitized :: "jsval \<Rightarrow> jsval" where
  "sanitized v = Str (escape (trim (toString v)))"

text \<open>The error a required field produces when nothing is left of it after trimming.\<close>

definition required_error :: "string \<Rightarrow> string \<Rightarrow> fielderror" where
  "required_error f m = \<lparr>val = Str [], msg = m, param = f, location = ''body''\<rparr>"

text \<open>
  The required fields of each create form, with the message its chain gives when the
  field is empty.
\<close>

definition required_fields :: "collection \<Rightarrow> (string \<times> string) list" where
  "required_fields c =
     (case c of
        Author \<Rightarrow> [(''first_name'', ''First name must be specified.''),
                   (''family_name'', ''Family name must be specified.'')]
      | Book \<Rightarrow> [(''title'', ''Title must not be empty.''),
                 (''author'', ''Author must not be empty.''),
                 (''summary'', ''Summary must not be empty.''),
                 (''isbn'', ''ISBN must not be empty'')]
      | Genre \<Rightarrow> [(''name'', ''Genre name required'')]
      | BookInstance \<Rightarrow> [(''book'', ''Book must be specified''),
                         (''imprint'', ''Imprint must be specified'')])"

text \<open>
  What an optional date field holds once its chain has run: a falsy value is left as it
  was submitted, another one is converted by \<open>toDate\<close>.
\<close>

definition optional_date :: "dates \<Rightarrow> jsval \<Rightarrow> jsval" where
  "optional_date L v = (if falsy v then v else toDate L (toString v))"

text \<open>
  The genre selection of a book form as the candidate holds it: the array made by the
  first middleware, each element escaped.
\<close>

definition genre_selection :: "jsval \<Rightarrow> jsval" where
  "genre_selection v =
     (case v of
        Arr xs \<Rightarrow> Arr (map escape xs)
      | Undefined \<Rightarrow> Arr []
      | w \<Rightarrow> Arr [escape (toString w)])"

text \<open>
  The candidate of each update-POST, from the submitted body: the path id as identifier,
  and every field as its chain leaves it.
\<close>

definition author_candidate :: "dates \<Rightarrow> request \<Rightarrow> author" where
  "author_candidate L req =
     \<lparr>author_id = params_id req,
      first_name = sanitized (field (body req) ''first_name''),
      family_name = sanitized (field (body req) ''family_name''),
      date_of_birth = optional_date L (field (body req) ''date_of_birth''),
      date_of_death = optional_date L (field (body req) ''date_of_death'')\<rparr>"

definition book_candidate :: "request \<Rightarrow> book" where
  "book_candidate req =
     \<lparr>book_id = params_id req,
      title = sanitized (field (body req) ''title''),
      book_author = sanitized (field (body req) ''author''),
      summary = sanitized (field (body req) ''summary''),
      isbn = sanitized (field (body req) ''isbn''),
      book_genre = genre_selection (field (body req) ''genre'')\<rparr>"

definition genre_candidate :: "request \<Rightarrow> genre" where
  "genre_candidate req =
     \<lparr>genre_id = params_id req, name = sanitized (field (body req) ''name'')\<rparr>"

definition bookinstance_candidate :: "dates \<Rightarrow> request \<Rightarrow> bookinstance" where
  "bookinstance_candidate L req =
     \<lparr>instance_id = params_id req,
      instance_book = sanitized (field (body req) ''book''),
      imprint = sanitized (field (body req) ''imprint''),
      status = Str (escape (toString (field (body req) ''status''))),
      due_back = optional_date L (field (body req) ''due_back'')\<rparr>"

text \<open>
  The errors of a BookInstance update-POST: those of the field rules, then the handler's
  own when the status is not \<open>Available\<close> and no due date is left.
\<close>

definition bookinstance_errors :: "dates \<Rightarrow> body \<Rightarrow> fielderror list" where
  "bookinstance_errors L b =
     snd (validationResult (bookinstance_rules L) b) @
     (if toString (field b ''status'') \<noteq> ''Available'' \<and> falsy (optional_date L (field b ''due_back''))
      then [dateErrow] else [])"

section \<open>Example data\<close>

text \<open>A small catalogue used to run the handlers on concrete requests.\<close>

definition catalog :: store where
  "catalog =
     \<lparr>authors = [\<lparr>author_id = ''a1'', first_name = Str ''Ann'', family_name = Str ''Lee'',
                  date_of_birth = Undefined, date_of_death = Undefined\<rparr>,
                 \<lparr>author_id = ''a2'', first_name = Str ''Bo'', family_name = Str ''Ray'',
                  date_of_birth = Undefined, date_of_death = Undefined\<rparr>],
      books = [\<lparr>book_id = ''b1'', title = Str ''Dune'', book_author = Str ''a1'',
                summary = Str ''Sand'', isbn = Str ''1'', book_genre = Arr [''g1'']\<rparr>,
               \<lparr>book_id = ''b2'', title = Str ''Emma'', book_author = Str ''a1'',
                summary = Str ''Match'', isbn = Str ''2'', book_genre = Arr []\<rparr>],
      genres = [\<lparr>genre_id = ''g1'', name = Str ''Fantasy''\<rparr>,
                \<lparr>genre_id = ''g2'', name = Str ''Poetry''\<rparr>],
      bookinstances = [\<lparr>instance_id = ''c1'', instance_book = Str ''b1'', imprint = Str ''Ace'',
                        status = Str ''Available'', due_back = Undefined\<rparr>]\<rparr>"

text \<open>A stand-in for the library's date checks: it accepts the strings of ten characters.\<close>

definition ten_chars :: dates where
  "ten_chars = \<lparr>isISO8601 = (\<lambda>s. length s = 10), isDate = (\<lambda>s. length s = 10),
                toDate = (\<lambda>s. if length s = 10 then Date s else Null)\<rparr>"

section \<open>Facts about the validation chains and the store\<close>

lemmas store_ops =
  Author_findById_def Book_findById_def Genre_findById_def BookInstance_findById_def
  Book_find_author_def Book_find_genre_def BookInstance_find_book_def
  Author_findByIdAndRemove_def Book_findByIdAndRemove_def Genre_findByIdAndRemove_def
  BookInstance_findByIdAndRemove_def

lemma field_update [simp]: "field (AList.update k v b) k' = (if k' = k then v else field b k')"
  by (simp add: field_def update_conv')

lemma fst_run_chain: "fst (run_chain f d ch v es) = fst (run_chain f d ch v [])"
proof (induction ch arbitrary: v es)
  case Nil
  show ?case by simp
next
  case (Cons a ch)
  show ?case
  proof (cases a)
    case (Validator p)
    let ?e = "\<lparr>val = v, msg = message d ch, param = f, location = ''body''\<rparr>"
    from Validator Cons.IH [of v es] Cons.IH [of v "es @ [?e]"] Cons.IH [of v "[?e]"]
    show ?thesis by simp
  next
    case (Sanitizer g)
    with Cons.IH [of "g (toString v)" es] show ?thesis by simp
  next
    case (WithMessage m)
    with Cons.IH [of v es] show ?thesis by simp
  qed
qed

lemma snd_run_chain: "snd (run_chain f d ch v es) = es @ snd (run_chain f d ch v [])"
proof (induction ch arbitrary: v es)
  case Nil
  show ?case by simp
next
  case (Cons a ch)
  show ?case
  proof (cases a)
    case (Validator p)
    let ?e = "\<lparr>val = v, msg = message d ch, param = f, location = ''body''\<rparr>"
    from Validator Cons.IH [of v es] Cons.IH [of v "es @ [?e]"] Cons.IH [of v "[?e]"]
    show ?thesis by simp
  next
    case (Sanitizer g)
    with Cons.IH [of "g (toString v)" es] show ?thesis by simp
  next
    case (WithMessage m)
    with Cons.IH [of v es] show ?thesis by simp
  qed
qed

lemma run_chain_acc:
  "run_chain f d ch v es = (fst (run_chain f d ch v []), es @ snd (run_chain f d ch v []))"
  using fst_run_chain [of f d ch v es] snd_run_chain [of f d ch v es]
  by (simp add: prod_eq_iff)

lemma field_body_chain:
  "field (fst (body_chain f d opt ch s)) k =
     (if k = f \<and> \<not> (opt \<and> falsy (field (fst s) f))
      then fst (run_chain f d ch (field (fst s) f) [])
      else field (fst s) k)"
  by (simp add: body_chain_def Let_def run_chain_acc [of f d ch _ "snd s"])

lemma snd_body_chain:
  "snd (body_chain f d opt ch s) =
     (if opt \<and> falsy (field (fst s) f) then snd s
      else snd s @ snd (run_chain f d ch (field (fst s) f) []))"
  by (simp add: body_chain_def Let_def run_chain_acc [of f d ch _ "snd s"])

lemma field_escape_each:
  "field (fst (escape_each f s)) k =
     (if k = f then (case field (fst s) f of Arr xs \<Rightarrow> Arr (map escape xs) | v \<Rightarrow> v)
      else field (fst s) k)"
  by (auto simp: escape_each_def split: jsval.splits)

lemma snd_escape_each: "snd (escape_each f s) = snd s"
  by (simp add: escape_each_def split: jsval.splits)

lemma field_genre_to_array:
  "field (genre_to_array b) k =
     (if k = ''genre''
      then (case field b ''genre'' of Arr xs \<Rightarrow> Arr xs | Undefined \<Rightarrow> Arr [] | v \<Rightarrow> Arr [toString v])
      else field b k)"
  by (auto simp: genre_to_array_def split: jsval.splits)

lemma required_value:
  "fst (run_chain f d required_chain v []) = Str (escape (trim (toString v)))"
  by (simp add: required_chain_def)

lemma required_errors:
  "snd (run_chain f (Some m) required_chain v []) =
     (if trim (toString v) = [] then [\<lparr>val = Str [], msg = m, param = f, location = ''body''\<rparr>] else [])"
  by (auto simp add: required_chain_def message_def isLength_def Suc_le_eq)

lemma name_value:
  "fst (run_chain f d (name_chain m1 m2) v []) = Str (escape (trim (toString v)))"
  by (simp add: name_chain_def)

lemma name_errors:
  "snd (run_chain f d (name_chain m1 m2) v []) =
     (if trim (toString v) = [] then [\<lparr>val = Str [], msg = m1, param = f, location = ''body''\<rparr>] else []) @
     (if isAlphanumeric (escape (trim (toString v))) then []
      else [\<lparr>val = Str (escape (trim (toString v))), msg = m2, param = f, location = ''body''\<rparr>])"
  by (auto simp add: name_chain_def message_def isLength_def Suc_le_eq)

lemma genre_rules_errors:
  "snd (validationResult genre_rules b) =
     (if trim (toString (field b ''name'')) = []
      then [required_error ''name'' ''Genre name required''] else [])"
  by (simp add: validationResult_def genre_rules_def snd_body_chain required_errors
      required_error_def)

lemma genre_rules_field:
  "field (fst (validationResult genre_rules b)) k =
     (if k = ''name'' then sanitized (field b ''name'') else field b k)"
  by (simp add: validationResult_def genre_rules_def field_body_chain required_value
      sanitized_def)

lemma set_remove_first: "set (remove_first P xs) \<subseteq> set xs"
  by (induction xs) auto

lemma find_remove_first:
  "distinct (map f xs) \<Longrightarrow> find (\<lambda>x. f x = k) (remove_first (\<lambda>x. f x = k) xs) = None"
proof (induction xs)
  case Nil
  show ?case by simp
next
  case (Cons a xs)
  show ?case
  proof (cases "f a = k")
    case True
    from Cons.prems have "\<forall>x \<in> set xs. f a \<noteq> f x" by (simp add: image_iff)
    with True have "\<forall>x \<in> set xs. f x \<noteq> k" by metis
    with True show ?thesis by (simp add: find_None_iff)
  next
    case False
    with Cons show ?thesis by simp
  qed
qed

lemma escape_char_plain: "CHR ''&'' \<notin> set (escape_char c) \<Longrightarrow> escape_char c = [c]"
  by (simp add: escape_char_def split: if_splits)

lemma escape_Nil: "escape [] = []"
  by (simp add: escape_def)

lemma escape_Cons: "escape (c # s) = escape_char c @ escape s"
  by (simp add: escape_def)

lemma escape_plain: "CHR ''&'' \<notin> set (escape s) \<Longrightarrow> escape s = s"
proof (induction s)
  case Nil
  show ?case by (rule escape_Nil)
next
  case (Cons c s)
  from Cons.prems have c: "CHR ''&'' \<notin> set (escape_char c)"
    and s: "CHR ''&'' \<notin> set (escape s)"
    by (simp_all add: escape_Cons)
  from c have "escape_char c = [c]" by (rule escape_char_plain)
  moreover from s have "escape s = s" by (rule Cons.IH)
  ultimately show ?case by (simp add: escape_Cons)
qed

lemma escape_Available: "escape s = ''Available'' \<longleftrightarrow> s = ''Available''"
proof
  assume e: "escape s = ''Available''"
  then have "CHR ''&'' \<notin> set (escape s)" by simp
  then have "escape s = s" by (rule escape_plain)
  with e show "s = ''Available''" by simp
next
  assume "s = ''Available''"
  then show "escape s = ''Available''" by (simp add: escape_def escape_char_def)
qed

lemma bookinstance_rules_errors:
  "snd (validationResult (bookinstance_rules L) b) =
     (if trim (toString (field b ''book'')) = []
      then [required_error ''book'' ''Book must be specified''] else []) @
     (if trim (toString (field b ''imprint'')) = []
      then [required_error ''imprint'' ''Imprint must be specified''] else []) @
     (if falsy (field b ''due_back'') then []
      else snd (run_chain ''due_back'' (Some ''Invalid date'')
                  [Validator (isDate L), Validator (isISO8601 L), Sanitizer (toDate L)]
                  (field b ''due_back'') []))"
  by (simp add: validationResult_def bookinstance_rules_def snd_body_chain field_body_chain
      required_errors required_error_def)

lemma bookinstance_rules_field:
  "field (fst (validationResult (bookinstance_rules L) b)) k =
     (if k = ''book'' then sanitized (field b ''book'')
      else if k = ''imprint'' then sanitized (field b ''imprint'')
      else if k = ''status'' then Str (escape (toString (field b ''status'')))
      else if k = ''due_back'' \<and> \<not> falsy (field b ''due_back'')
           then toDate L (toString (field b ''due_back''))
      else field b k)"
  by (simp add: validationResult_def bookinstance_rules_def field_body_chain required_value
      sanitized_def)

lemma map_replace_first: "f y = k \<Longrightarrow> map f (replace_first (\<lambda>x. f x = k) y xs) = map f xs"
  by (induction xs) auto

lemma replace_first_absent:
  "find (\<lambda>x. f x = k) xs = None \<Longrightarrow> replace_first (\<lambda>x. f x = k) y xs = xs"
  by (induction xs) (auto split: if_splits)

lemma author_rules_errors:
  "snd (validationResult (author_rules L) b) =
     snd (run_chain ''first_name'' None
            (name_chain ''First name must be specified.''
                        ''First name has non-alphanumeric characters.'')
            (field b ''first_name'') []) @
     snd (run_chain ''family_name'' None
            (name_chain ''Family name must be specified.''
                        ''Family name has non-alphanumeric characters.'')
            (field b ''family_name'') []) @
     (if falsy (field b ''date_of_birth'') then []
      else snd (run_chain ''date_of_birth'' (Some ''Invalid date of birth'')
                  [Validator (isISO8601 L), Sanitizer (toDate L)] (field b ''date_of_birth'') [])) @
     (if falsy (field b ''date_of_death'') then []
      else snd (run_chain ''date_of_death'' (Some ''Invalid date of death'')
                  [Validator (isISO8601 L), Sanitizer (toDate L)] (field b ''date_of_death'') []))"
  by (simp add: validationResult_def author_rules_def snd_body_chain field_body_chain)

lemma author_rules_field:
  "field (fst (validationResult (author_rules L) b)) k =
     (if k = ''first_name'' then sanitized (field b ''first_name'')
      else if k = ''family_name'' then sanitized (field b ''family_name'')
      else if k = ''date_of_birth'' \<and> \<not> falsy (field b ''date_of_birth'')
           then toDate L (toString (field b ''date_of_birth''))
      else if k = ''date_of_death'' \<and> \<not> falsy (field b ''date_of_death'')
           then toDate L (toString (field b ''date_of_death''))
      else field b k)"
  by (simp add: validationResult_def author_rules_def field_body_chain name_value sanitized_def)

lemma book_rules_errors:
  "snd (validationResult book_rules b) =
     (if trim (toString (field b ''title'')) = []
      then [required_error ''title'' ''Title must not be empty.''] else []) @
     (if trim (toString (field b ''author'')) = []
      then [required_error ''author'' ''Author must not be empty.''] else []) @
     (if trim (toString (field b ''summary'')) = []
      then [required_error ''summary'' ''Summary must not be empty.''] else []) @
     (if trim (toString (field b ''isbn'')) = []
      then [required_error ''isbn'' ''ISBN must not be empty''] else [])"
  by (simp add: validationResult_def book_rules_def snd_body_chain field_body_chain
      snd_escape_each required_errors required_error_def)

lemma book_rules_field:
  "field (fst (validationResult book_rules b)) k =
     (if k = ''title'' then sanitized (field b ''title'')
      else if k = ''author'' then sanitized (field b ''author'')
      else if k = ''summary'' then sanitized (field b ''summary'')
      else if k = ''isbn'' then sanitized (field b ''isbn'')
      else if k = ''genre''
           then (case field b ''genre'' of Arr xs \<Rightarrow> Arr (map escape xs) | v \<Rightarrow> v)
      else field b k)"
  by (simp add: validationResult_def book_rules_def field_body_chain field_escape_each
      required_value sanitized_def)


lemma Author_update_absent:
  "Author_findById st (Str i) = None \<Longrightarrow> Author_findByIdAndUpdate i d st = (None, st)"
  by (simp add: Author_findByIdAndUpdate_def Author_findById_def replace_first_absent)

lemma Book_update_absent:
  "Book_findById st (Str i) = None \<Longrightarrow> Book_findByIdAndUpdate i d st = (None, st)"
  by (simp add: Book_findByIdAndUpdate_def Book_findById_def replace_first_absent)

lemma Genre_update_absent:
  "Genre_findById st (Str i) = None \<Longrightarrow> Genre_findByIdAndUpdate i d st = (None, st)"
  by (simp add: Genre_findByIdAndUpdate_def Genre_findById_def replace_first_absent)

lemma author_required:
  assumes "(f, m) \<in> set (required_fields Author)" and "trim (toString (field b f)) = []"
  shows "required_error f m \<in> set (snd (validationResult (author_rules L) b))"
  using assms
  by (auto simp add: required_fields_def author_rules_errors name_errors required_error_def)

lemma book_required:
  assumes "(f, m) \<in> set (required_fields Book)" and "trim (toString (field b f)) = []"
  shows "required_error f m \<in> set (snd (validationResult book_rules b))"
  using assms
  by (auto simp add: required_fields_def book_rules_errors)

lemma genre_required:
  assumes "(f, m) \<in> set (required_fields Genre)" and "trim (toString (field b f)) = []"
  shows "required_error f m \<in> set (snd (validationResult genre_rules b))"
  using assms
  by (auto simp add: required_fields_def genre_rules_errors)

lemma bookinstance_required:
  assumes "(f, m) \<in> set (required_fields BookInstance)" and "trim (toString (field b f)) = []"
  shows "required_error f m \<in> set (snd (validationResult (bookinstance_rules L) b))"
  using assms
  by (auto simp add: required_fields_def bookinstance_rules_errors)

lemma book_candidate_genre:
  "field (fst (validationResult book_rules (genre_to_array b))) ''genre'' =
     genre_selection (field b ''genre'')"
  by (simp add: book_rules_field field_genre_to_array genre_selection_def split: jsval.splits)

lemma book_candidate_text:
  "k \<in> {''title'', ''author'', ''summary'', ''isbn''} \<Longrightarrow>
   field (fst (validationResult book_rules (genre_to_array b))) k = sanitized (field b k)"
  by (auto simp add: book_rules_field field_genre_to_array)

lemma required_in_genre_to_array:
  "(f, m) \<in> set (required_fields Book) \<Longrightarrow> field (genre_to_array b) f = field b f"
  by (auto simp add: required_fields_def field_genre_to_array)

lemma find_id:
  "find (\<lambda>x. f x = k) xs = Some y \<Longrightarrow> f y = k"
  by (induction xs) (auto split: if_splits)

lemma author_update_post_valid:
  assumes "snd (validationResult (author_rules L) (body req)) = []"
  shows "author_update_post L st req =
     \<lparr>calls = (case Author_findById st (Str (params_id req)) of
                 None \<Rightarrow> [Next (TypeError ''url'')]
               | Some old \<Rightarrow> [Redirect (url Author (params_id req))]),
      db = st\<lparr>authors := replace_first (\<lambda>a. author_id a = params_id req)
                             (author_candidate L req) (authors st)\<rparr>,
      writes = [FindByIdAndUpdate Author (params_id req)]\<rparr>"
  using assms
  by (auto simp add: author_update_post_def Let_def Author_findByIdAndUpdate_def
      Author_findById_def author_candidate_def author_rules_field optional_date_def
      split: option.splits dest: find_id)

lemma author_update_post_invalid:
  assumes "snd (validationResult (author_rules L) (body req)) \<noteq> []"
  shows "author_update_post L st req =
     \<lparr>calls = [Render ''author_form''
                 [(''title'', DStr ''Update Author''),
                  (''author'', DAuthor (author_candidate L req)),
                  (''errors'', DErrors (snd (validationResult (author_rules L) (body req))))]],
      db = st, writes = []\<rparr>"
  using assms
  by (simp add: author_update_post_def Let_def reply_def author_candidate_def author_rules_field
      optional_date_def)

lemma book_update_genre:
  "(case field (fst (validationResult book_rules (genre_to_array b))) ''genre'' of
      Undefined \<Rightarrow> Arr [] | v \<Rightarrow> v) = genre_selection (field b ''genre'')"
  by (simp add: book_candidate_genre genre_selection_def split: jsval.splits)

lemma book_update_post_valid:
  assumes "snd (validationResult book_rules (genre_to_array (body req))) = []"
  shows "book_update_post st req =
     \<lparr>calls = (case Book_findById st (Str (params_id req)) of
                 None \<Rightarrow> [Next (TypeError ''url'')]
               | Some old \<Rightarrow> [Redirect (url Book (params_id req))]),
      db = st\<lparr>books := replace_first (\<lambda>b. book_id b = params_id req)
                           (book_candidate req) (books st)\<rparr>,
      writes = [FindByIdAndUpdate Book (params_id req)]\<rparr>"
  using assms
  by (auto simp add: book_update_post_def Let_def Book_findByIdAndUpdate_def
      Book_findById_def book_candidate_def book_candidate_text book_update_genre
      split: option.splits dest: find_id)

lemma book_update_post_invalid:
  assumes "snd (validationResult book_rules (genre_to_array (body req))) \<noteq> []"
  shows "book_update_post st req =
     \<lparr>calls = [Render ''book_form''
                 [(''title'', DStr ''Update Book''),
                  (''authors'', DAuthors (authors st)),
                  (''genres'',
                     DGenres (map (\<lambda>g. (g, selected (book_genre (book_candidate req)) (genre_id g)))
                                (genres st))),
                  (''book'', DBook (book_candidate req)),
                  (''errors'',
                     DErrors (snd (validationResult book_rules (genre_to_array (body req)))))]],
      db = st, writes = []\<rparr>"
  using assms
  by (simp add: book_update_post_def Let_def reply_def book_candidate_def book_candidate_text
      book_update_genre)

lemma genre_update_post_valid:
  assumes "snd (validationResult genre_rules (body req)) = []"
  shows "genre_update_post st req =
     (case Genre_findOne_name st (sanitized (field (body req) ''name'')) of
        Some genreMatch \<Rightarrow>
          \<lparr>calls = [Redirect (url Genre (genre_id genreMatch))], db = st, writes = []\<rparr>
      | None \<Rightarrow>
          \<lparr>calls = (case Genre_findById st (Str (params_id req)) of
                      None \<Rightarrow> [Next (TypeError ''url'')]
                    | Some old \<Rightarrow> [Redirect (url Genre (params_id req))]),
           db = st\<lparr>genres := replace_first (\<lambda>g. genre_id g = params_id req)
                                 (genre_candidate req) (genres st)\<rparr>,
           writes = [FindByIdAndUpdate Genre (params_id req)]\<rparr>)"
  using assms
  by (auto simp add: genre_update_post_def Let_def Genre_findByIdAndUpdate_def reply_def
      Genre_findById_def genre_candidate_def genre_rules_field
      split: option.splits dest: find_id)

lemma genre_update_post_invalid:
  assumes "snd (validationResult genre_rules (body req)) \<noteq> []"
  shows "genre_update_post st req =
     \<lparr>calls = [Render ''genre_form''
                 [(''title'', DStr ''Update Genre''),
                  (''genre'', DGenre (genre_candidate req)),
                  (''errors'', DErrors (snd (validationResult genre_rules (body req))))]],
      db = st, writes = []\<rparr>"
  using assms
  by (simp add: genre_update_post_def Let_def reply_def genre_candidate_def genre_rules_field)

lemma bookinstance_errors_eq:
  "snd (validationResult (bookinstance_rules L) b) @
     (if loose_neq (field (fst (validationResult (bookinstance_rules L) b)) ''status'') ''Available'' \<and>
         falsy (field (fst (validationResult (bookinstance_rules L) b)) ''due_back'')
      then [dateErrow] else []) = bookinstance_errors L b"
  by (simp add: bookinstance_errors_def bookinstance_rules_field escape_Available
      optional_date_def)

lemma bookinstance_update_post_valid:
  assumes "bookinstance_errors L (body req) = []"
  shows "bookinstance_update_post L st req =
     \<lparr>calls = (case BookInstance_findById st (Str (params_id req)) of
                 None \<Rightarrow> [Next (TypeError ''url'')]
               | Some old \<Rightarrow> [Redirect (url BookInstance (params_id req))]),
      db = st\<lparr>bookinstances := replace_first (\<lambda>c. instance_id c = params_id req)
                                   (bookinstance_candidate L req) (bookinstances st)\<rparr>,
      writes = [FindByIdAndUpdate BookInstance (params_id req)]\<rparr>"
  using assms
  unfolding bookinstance_update_post_def Let_def bookinstance_errors_eq
  by (auto simp add: BookInstance_findByIdAndUpdate_def
      BookInstance_findById_def bookinstance_candidate_def bookinstance_rules_field
      optional_date_def
      split: option.splits dest: find_id)

lemma bookinstance_update_post_invalid:
  assumes "bookinstance_errors L (body req) \<noteq> []"
  shows "bookinstance_update_post L st req =
     \<lparr>calls = [Render ''bookinstance_form''
                 [(''title'', DStr ''Update Book Instance''),
                  (''books'', DBooks (books st)),
                  (''statuses'', DStrs enumValues),
                  (''bookinstance'', DInstance (bookinstance_candidate L req)),
                  (''errors'', DErrors (bookinstance_errors L (body req)))]],
      db = st, writes = []\<rparr>"
  using assms
  unfolding bookinstance_update_post_def Let_def bookinstance_errors_eq
  by (simp add: reply_def bookinstance_candidate_def bookinstance_rules_field
      optional_date_def)

lemma find_replace_first:
  "find (\<lambda>x. f x = k) xs \<noteq> None \<Longrightarrow> f y = k \<Longrightarrow>
   find (\<lambda>x. f x = k) (replace_first (\<lambda>x. f x = k) y xs) = Some y"
  by (induction xs) auto

lemma bookinstance_create_post_blank_book:
  assumes "trim (toString (field (body req) ''book'')) = []"
  shows "bookinstance_create_post oid L new_id st req =
           \<lparr>calls = [Next (TypeError ''_id'')], db = st, writes = []\<rparr>"
proof -
  have "required_error ''book'' ''Book must be specified'' \<in>
      set (snd (validationResult (bookinstance_rules L) (body req)))"
    using assms by (simp add: bookinstance_rules_errors)
  then have ne: "snd (validationResult (bookinstance_rules L) (body req)) \<noteq> []"
    by auto
  have "sanitized (field (body req) ''book'') = Str []"
    using assms by (simp add: sanitized_def escape_Nil)
  then have "get_id (reference oid (field (fst (validationResult (bookinstance_rules L) (body req)))
      ''book'')) = Inl (TypeError ''_id'')"
    by (simp add: bookinstance_rules_field reference_def get_id_def)
  with ne show ?thesis
    by (simp add: bookinstance_create_post_def Let_def reply_def)
qed

section \<open>Deleting a book\<close>

text \<open>
  C1 (as stated): Book delete-POST never performs a dependents check; the deletion
  proceeds whether or not BookInstance documents reference the Book. The handler does
  check: in the example catalogue book \<open>b1\<close> has the copy \<open>c1\<close>, and the request to
  delete \<open>b1\<close> renders the confirmation view again and leaves the store as it was.
\<close>

theorem book_delete_post_counterexample:
  "BookInstance_find_book catalog (Str ''b1'') \<noteq> [] \<and>
   calls (book_delete_post catalog \<lparr>params_id = ''b1'', body = [(''bookid'', Str ''b1'')]\<rparr>) =
     [Render ''book_delete''
        [(''title'', DStr ''Delete Book''),
         (''book'', DBook \<lparr>book_id = ''b1'', title = Str ''Dune'', book_author = Str ''a1'',
                summary = Str ''Sand'', isbn = Str ''1'', book_genre = Arr [''g1'']\<rparr>),
         (''book_instances'', DInstances (bookinstances catalog))]] \<and>
   db (book_delete_post catalog \<lparr>params_id = ''b1'', body = [(''bookid'', Str ''b1'')]\<rparr>) = catalog \<and>
   writes (book_delete_post catalog \<lparr>params_id = ''b1'', body = [(''bookid'', Str ''b1'')]\<rparr>) = []"
  by (simp add: book_delete_post_def catalog_def store_ops reply_def nullable_def field_def Let_def)

text \<open>
  C1 (amended): Book delete-POST loads the BookInstances that reference the path id. When
  there is at least one, it renders the confirmation view again with the book and those
  copies, and writes nothing; when there is none, it removes the document named by the
  body's \<open>bookid\<close> and redirects to the book list.
\<close>

theorem book_delete_post_guard:
  "(BookInstance_find_book st (Str (params_id req)) \<noteq> [] \<longrightarrow>
      calls (book_delete_post st req) =
        [Render ''book_delete''
           [(''title'', DStr ''Delete Book''),
            (''book'', nullable DBook (Book_findById st (Str (params_id req)))),
            (''book_instances'', DInstances (BookInstance_find_book st (Str (params_id req))))]] \<and>
      db (book_delete_post st req) = st \<and>
      writes (book_delete_post st req) = []) \<and>
   (BookInstance_find_book st (Str (params_id req)) = [] \<longrightarrow>
      calls (book_delete_post st req) = [Redirect ''/catalog/books''] \<and>
      db (book_delete_post st req) = Book_findByIdAndRemove (field (body req) ''bookid'') st \<and>
      writes (book_delete_post st req) = [FindByIdAndRemove Book (field (body req) ''bookid'')])"
  by (simp add: book_delete_post_def reply_def Let_def)

theorem book_delete_post_guard_witness:
  "BookInstance_find_book catalog (Str ''b1'') \<noteq> [] \<and>
   db (book_delete_post catalog \<lparr>params_id = ''b1'', body = [(''bookid'', Str ''b1'')]\<rparr>) = catalog \<and>
   BookInstance_find_book catalog (Str ''b2'') = [] \<and>
   map book_id (books (db (book_delete_post catalog
      \<lparr>params_id = ''b2'', body = [(''bookid'', Str ''b2'')]\<rparr>))) = [''b1''] \<and>
   calls (book_delete_post catalog \<lparr>params_id = ''b2'', body = [(''bookid'', Str ''b2'')]\<rparr>) =
     [Redirect ''/catalog/books'']"
proof -
  have h1: "BookInstance_find_book catalog (Str ''b1'') \<noteq> []"
    by (simp add: catalog_def store_ops)
  have h2: "BookInstance_find_book catalog (Str ''b2'') = []"
    by (simp add: catalog_def store_ops)
  show ?thesis
    using h1 h2
      book_delete_post_guard [of catalog "\<lparr>params_id = ''b1'', body = [(''bookid'', Str ''b1'')]\<rparr>"]
      book_delete_post_guard [of catalog "\<lparr>params_id = ''b2'', body = [(''bookid'', Str ''b2'')]\<rparr>"]
    by (simp add: Book_findByIdAndRemove_def field_def catalog_def)
qed

section \<open>Deleting an author or a genre that still has books\<close>

text \<open>
  C2: an Author or Genre delete-POST on an entity with at least one dependent Book deletes
  nothing and answers by rendering the delete confirmation view again. The Genre handler
  loads the books of the path id and deletes the genre named by the body's \<open>genreid\<close>:
  in the example catalogue genre \<open>g1\<close> has the book \<open>b1\<close> and genre \<open>g2\<close> has none, and
  the request with path id \<open>g2\<close> and \<open>genreid\<close> \<open>g1\<close> removes \<open>g1\<close> and redirects. The
  Author handler never reads the path id: the request with path id \<open>a1\<close>, an author
  with books, and \<open>authorid\<close> \<open>a2\<close> removes \<open>a2\<close> and redirects.
\<close>

theorem delete_post_of_referenced_entity:
  "Book_find_genre catalog (Str ''g1'') \<noteq> [] \<and>
   genre_delete_post catalog \<lparr>params_id = ''g2'', body = [(''genreid'', Str ''g1'')]\<rparr> =
     \<lparr>calls = [Redirect ''/catalog/genres''],
      db = catalog\<lparr>genres := [\<lparr>genre_id = ''g2'', name = Str ''Poetry''\<rparr>]\<rparr>,
      writes = [FindByIdAndRemove Genre (Str ''g1'')]\<rparr> \<and>
   length (genres (db (genre_delete_post catalog
      \<lparr>params_id = ''g2'', body = [(''genreid'', Str ''g1'')]\<rparr>))) < length (genres catalog) \<and>
   Book_find_author catalog (Str ''a1'') \<noteq> [] \<and>
   calls (author_delete_post catalog \<lparr>params_id = ''a1'', body = [(''authorid'', Str ''a2'')]\<rparr>) =
     [Redirect ''/catalog/authors''] \<and>
   length (authors (db (author_delete_post catalog
      \<lparr>params_id = ''a1'', body = [(''authorid'', Str ''a2'')]\<rparr>))) < length (authors catalog)"
  by (simp add: genre_delete_post_def author_delete_post_def Let_def reply_def field_def
      catalog_def store_ops)

text \<open>
  What the two handlers do guard: the author named by the body's \<open>authorid\<close> and the
  genre named by the path id are kept while books refer to them.
\<close>

lemma guarded_delete_post:
  "(Book_find_author st (field (body req) ''authorid'') \<noteq> [] \<longrightarrow>
      calls (author_delete_post st req) =
        [Render ''author_delete''
           [(''title'', DStr ''Delete Author''),
            (''author'', nullable DAuthor (Author_findById st (field (body req) ''authorid''))),
            (''author_books'', DBooks (Book_find_author st (field (body req) ''authorid'')))]] \<and>
      db (author_delete_post st req) = st \<and>
      writes (author_delete_post st req) = []) \<and>
   (Book_find_genre st (Str (params_id req)) \<noteq> [] \<longrightarrow>
      calls (genre_delete_post st req) =
        [Render ''genre_delete''
           [(''title'', DStr ''Delete Genre''),
            (''genre'', nullable DGenre (Genre_findById st (Str (params_id req)))),
            (''genre_books'', DBooks (Book_find_genre st (Str (params_id req))))]] \<and>
      db (genre_delete_post st req) = st \<and>
      writes (genre_delete_post st req) = [])"
  by (simp add: author_delete_post_def genre_delete_post_def reply_def Let_def)

section \<open>The update form of a genre\<close>

text \<open>
  C3: every update-GET handler loads the document and fails with NotFound (status 404)
  when the path id names none. The author, book and book-instance handlers do;
  \<open>genre_update_get\<close> looks nothing up and renders the empty form for any id. Here it is
  run on the id \<open>g9\<close>, which names no genre of the example catalogue.
\<close>

theorem genre_update_get_no_lookup:
  "Genre_findById catalog (Str ''g9'') = None \<and>
   genre_update_get catalog \<lparr>params_id = ''g9'', body = []\<rparr> =
     \<lparr>calls = [Render ''genre_form'' [(''title'', DStr ''Update Genre'')]],
      db = catalog, writes = []\<rparr>"
  by (simp add: genre_update_get_def reply_def catalog_def store_ops)

section \<open>Creating a genre whose name exists\<close>

text \<open>
  C4: a Genre create-POST with valid input (a name of which something is left after
  trimming) whose name, as the handler holds it after trimming and escaping, is exactly
  that of an existing genre inserts nothing and redirects to the existing genre's detail
  location; otherwise the new genre is saved and the response redirects to its detail
  location. The comparison is equality of strings, so it is case-sensitive.
\<close>

theorem genre_create_post_unique_name:
  assumes "trim (toString (field (body req) ''name'')) \<noteq> []"
  shows "((\<exists>g \<in> set (genres st). name g = sanitized (field (body req) ''name'')) \<longrightarrow>
            (\<exists>m \<in> set (genres st). name m = sanitized (field (body req) ''name'') \<and>
               calls (genre_create_post new_id st req) = [Redirect (url Genre (genre_id m))]) \<and>
            db (genre_create_post new_id st req) = st \<and>
            writes (genre_create_post new_id st req) = []) \<and>
         (\<not> (\<exists>g \<in> set (genres st). name g = sanitized (field (body req) ''name'')) \<longrightarrow>
            calls (genre_create_post new_id st req) = [Redirect (url Genre new_id)] \<and>
            db (genre_create_post new_id st req) =
              st\<lparr>genres := genres st @
                    [\<lparr>genre_id = new_id, name = sanitized (field (body req) ''name'')\<rparr>]\<rparr> \<and>
            writes (genre_create_post new_id st req) = [Save Genre new_id])"
proof -
  let ?n = "sanitized (field (body req) ''name'')"
  have valid: "snd (validationResult genre_rules (body req)) = []"
    using assms by (simp add: genre_rules_errors)
  have nm: "field (fst (validationResult genre_rules (body req))) ''name'' = ?n"
    by (simp add: genre_rules_field)
  show ?thesis
  proof (cases "find (\<lambda>g. name g = ?n) (genres st)")
    case None
    then have "\<not> (\<exists>g \<in> set (genres st). name g = ?n)"
      by (simp add: find_None_iff)
    with None valid nm show ?thesis
      by (simp add: genre_create_post_def Let_def Genre_findOne_name_def)
  next
    case (Some m)
    then have "m \<in> set (genres st)" and "name m = ?n"
      by (auto simp: find_Some_iff)
    with Some valid nm show ?thesis
      by (auto simp add: genre_create_post_def Let_def Genre_findOne_name_def reply_def)
  qed
qed

theorem genre_create_post_unique_name_witness:
  "trim (toString (field [(''name'', Str '' Fantasy '')] ''name'')) \<noteq> [] \<and>
   genre_create_post ''g3'' catalog \<lparr>params_id = [], body = [(''name'', Str '' Fantasy '')]\<rparr> =
     \<lparr>calls = [Redirect ''/catalog/genres/g1''], db = catalog, writes = []\<rparr> \<and>
   trim (toString (field [(''name'', Str ''fantasy'')] ''name'')) \<noteq> [] \<and>
   genres (db (genre_create_post ''g3'' catalog
      \<lparr>params_id = [], body = [(''name'', Str ''fantasy'')]\<rparr>)) =
     genres catalog @ [\<lparr>genre_id = ''g3'', name = Str ''fantasy''\<rparr>] \<and>
   calls (genre_create_post ''g3'' catalog
      \<lparr>params_id = [], body = [(''name'', Str ''fantasy'')]\<rparr>) = [Redirect ''/catalog/genres/g3'']"
proof -
  have t1: "trim '' Fantasy '' = ''Fantasy''" and t2: "trim ''fantasy'' = ''fantasy''"
    by (simp_all add: trim_def whitespace_def)
  have e1: "escape ''Fantasy'' = ''Fantasy''" and e2: "escape ''fantasy'' = ''fantasy''"
    by (simp_all add: escape_def escape_char_def)
  have h1: "trim (toString (field [(''name'', Str '' Fantasy '')] ''name'')) \<noteq> []"
    and h2: "trim (toString (field [(''name'', Str ''fantasy'')] ''name'')) \<noteq> []"
    by (simp_all add: field_def t1 t2)
  have s1: "sanitized (field [(''name'', Str '' Fantasy '')] ''name'') = Str ''Fantasy''"
    and s2: "sanitized (field [(''name'', Str ''fantasy'')] ''name'') = Str ''fantasy''"
    by (simp_all add: sanitized_def field_def t1 t2 e1 e2)
  show ?thesis
    using h1 h2 s1 s2
      genre_create_post_unique_name [of "\<lparr>params_id = [], body = [(''name'', Str '' Fantasy '')]\<rparr>"
         catalog "''g3''"]
      genre_create_post_unique_name [of "\<lparr>params_id = [], body = [(''name'', Str ''fantasy'')]\<rparr>"
         catalog "''g3''"]
    by (simp add: catalog_def url_def plural_def)
qed

section \<open>Updating a book instance without a due date\<close>

text \<open>
  C5: a BookInstance update-POST whose status is not \<open>Available\<close> and whose
  \<open>due_back\<close> is absent (or empty) gets the handler's own date error added after the
  errors of the declarative rules, none of which is about \<open>due_back\<close>; the form is
  rendered again with the errors, and nothing is written. The error the handler adds
  names its field \<open>Due_back\<close>.
\<close>

theorem bookinstance_update_post_due_back:
  assumes "toString (field (body req) ''status'') \<noteq> ''Available''"
    and "falsy (field (body req) ''due_back'')"
  shows "calls (bookinstance_update_post L st req) =
           [Render ''bookinstance_form''
              [(''title'', DStr ''Update Book Instance''),
               (''books'', DBooks (books st)),
               (''statuses'', DStrs enumValues),
               (''bookinstance'', DInstance
                  \<lparr>instance_id = params_id req,
                   instance_book = sanitized (field (body req) ''book''),
                   imprint = sanitized (field (body req) ''imprint''),
                   status = Str (escape (toString (field (body req) ''status''))),
                   due_back = field (body req) ''due_back''\<rparr>),
               (''errors'', DErrors
                  (snd (validationResult (bookinstance_rules L) (body req)) @ [dateErrow]))]] \<and>
         filter (\<lambda>e. param e = ''due_back'')
           (snd (validationResult (bookinstance_rules L) (body req))) = [] \<and>
         db (bookinstance_update_post L st req) = st \<and>
         writes (bookinstance_update_post L st req) = []"
  using assms
  by (simp add: bookinstance_update_post_def Let_def bookinstance_rules_field
      bookinstance_rules_errors escape_Available reply_def required_error_def)

theorem bookinstance_update_post_due_back_witness:
  "toString (field [(''book'', Str ''b1''), (''imprint'', Str ''Ace''), (''status'', Str ''Loaned'')]
      ''status'') \<noteq> ''Available'' \<and>
   falsy (field [(''book'', Str ''b1''), (''imprint'', Str ''Ace''), (''status'', Str ''Loaned'')]
      ''due_back'') \<and>
   snd (validationResult (bookinstance_rules ten_chars)
      [(''book'', Str ''b1''), (''imprint'', Str ''Ace''), (''status'', Str ''Loaned'')]) = [] \<and>
   calls (bookinstance_update_post ten_chars catalog
      \<lparr>params_id = ''c1'',
       body = [(''book'', Str ''b1''), (''imprint'', Str ''Ace''), (''status'', Str ''Loaned'')]\<rparr>) =
     [Render ''bookinstance_form''
        [(''title'', DStr ''Update Book Instance''),
         (''books'', DBooks (books catalog)),
         (''statuses'', DStrs enumValues),
         (''bookinstance'', DInstance
            \<lparr>instance_id = ''c1'', instance_book = Str ''b1'', imprint = Str ''Ace'',
             status = Str ''Loaned'', due_back = Undefined\<rparr>),
         (''errors'', DErrors [dateErrow])]] \<and>
   db (bookinstance_update_post ten_chars catalog
      \<lparr>params_id = ''c1'',
       body = [(''book'', Str ''b1''), (''imprint'', Str ''Ace''), (''status'', Str ''Loaned'')]\<rparr>) =
     catalog"
proof -
  let ?b = "[(''book'', Str ''b1''), (''imprint'', Str ''Ace''), (''status'', Str ''Loaned'')]"
  have f: "field ?b ''status'' = Str ''Loaned''" "field ?b ''due_back'' = Undefined"
      "field ?b ''book'' = Str ''b1''" "field ?b ''imprint'' = Str ''Ace''"
    by (simp_all add: field_def)
  have t: "trim ''b1'' = ''b1''" "trim ''Ace'' = ''Ace''"
    by (simp_all add: trim_def whitespace_def)
  have e: "escape ''b1'' = ''b1''" "escape ''Ace'' = ''Ace''" "escape ''Loaned'' = ''Loaned''"
    by (simp_all add: escape_def escape_char_def)
  have v: "snd (validationResult (bookinstance_rules ten_chars) ?b) = []"
    by (simp add: bookinstance_rules_errors f t)
  show ?thesis
    using v bookinstance_update_post_due_back
        [of "\<lparr>params_id = ''c1'', body = ?b\<rparr>" ten_chars catalog]
    by (simp add: f t e sanitized_def)
qed

section \<open>Looking up a document that does not exist\<close>

text \<open>
  C6: for Author, Book, Genre and BookInstance, a detail-GET on an id that names no
  document hands a NotFound error with status 404 to \<open>next\<close>, while a delete-GET on
  such an id answers with a redirect to the entity's list page. (After the redirect the
  delete-GET handler still calls \<open>res.render\<close>; the response is the redirect.)
\<close>

theorem missing_document_get:
  "(Author_findById st (Str (params_id req)) = None \<longrightarrow>
      calls (author_detail st req) = [Next (Status 404 ''Author not found'')] \<and>
      response (author_delete_get st req) = Some (Redirect ''/catalog/authors'')) \<and>
   (Book_findById st (Str (params_id req)) = None \<longrightarrow>
      calls (book_detail st req) = [Next (Status 404 ''Book not found'')] \<and>
      response (book_delete_get st req) = Some (Redirect ''/catalog/books'')) \<and>
   (Genre_findById st (Str (params_id req)) = None \<longrightarrow>
      calls (genre_detail st req) = [Next (Status 404 ''Genre not found'')] \<and>
      response (genre_delete_get st req) = Some (Redirect ''/catalog/genres'')) \<and>
   (BookInstance_findById st (Str (params_id req)) = None \<longrightarrow>
      calls (bookinstance_detail st req) = [Next (Status 404 ''Book copy not found'')] \<and>
      response (bookinstance_delete_get st req) = Some (Redirect ''/catalog/bookinstances''))"
  by (simp add: author_detail_def book_detail_def genre_detail_def bookinstance_detail_def
      author_delete_get_def book_delete_get_def genre_delete_get_def bookinstance_delete_get_def
      reply_def response_def Let_def)

theorem missing_document_get_witness:
  "Author_findById catalog (Str ''zz'') = None \<and>
   Book_findById catalog (Str ''zz'') = None \<and>
   Genre_findById catalog (Str ''zz'') = None \<and>
   BookInstance_findById catalog (Str ''zz'') = None \<and>
   response (author_detail catalog \<lparr>params_id = ''zz'', body = []\<rparr>) =
     Some (Next (Status 404 ''Author not found'')) \<and>
   response (book_detail catalog \<lparr>params_id = ''zz'', body = []\<rparr>) =
     Some (Next (Status 404 ''Book not found'')) \<and>
   response (genre_detail catalog \<lparr>params_id = ''zz'', body = []\<rparr>) =
     Some (Next (Status 404 ''Genre not found'')) \<and>
   response (bookinstance_detail catalog \<lparr>params_id = ''zz'', body = []\<rparr>) =
     Some (Next (Status 404 ''Book copy not found'')) \<and>
   response (author_delete_get catalog \<lparr>params_id = ''zz'', body = []\<rparr>) =
     Some (Redirect ''/catalog/authors'') \<and>
   response (book_delete_get catalog \<lparr>params_id = ''zz'', body = []\<rparr>) =
     Some (Redirect ''/catalog/books'') \<and>
   response (genre_delete_get catalog \<lparr>params_id = ''zz'', body = []\<rparr>) =
     Some (Redirect ''/catalog/genres'') \<and>
   response (bookinstance_delete_get catalog \<lparr>params_id = ''zz'', body = []\<rparr>) =
     Some (Redirect ''/catalog/bookinstances'')"
proof -
  have h: "Author_findById catalog (Str ''zz'') = None"
     "Book_findById catalog (Str ''zz'') = None"
     "Genre_findById catalog (Str ''zz'') = None"
     "BookInstance_findById catalog (Str ''zz'') = None"
    by (simp_all add: catalog_def store_ops)
  show ?thesis
    using h missing_document_get [of catalog "\<lparr>params_id = ''zz'', body = []\<rparr>"]
    by (simp add: response_def)
qed

section \<open>Which identifier a delete-POST checks and which it deletes\<close>

text \<open>
  C9: the Genre and Book delete-POST handlers load the dependents of the path id and
  delete the document named by the body (\<open>genreid\<close>, \<open>bookid\<close>): when the two differ
  and the path id has no dependents, the document of the body id is removed, whatever
  depends on it. The Author delete-POST uses the body's \<open>authorid\<close> for the check and
  for the deletion.
\<close>

theorem delete_post_path_and_body_ids:
  "(field (body req) ''genreid'' = Str g \<and> g \<noteq> params_id req \<and>
    Book_find_genre st (Str (params_id req)) = [] \<longrightarrow>
      calls (genre_delete_post st req) = [Redirect ''/catalog/genres''] \<and>
      writes (genre_delete_post st req) = [FindByIdAndRemove Genre (Str g)] \<and>
      db (genre_delete_post st req) =
        st\<lparr>genres := remove_first (\<lambda>x. genre_id x = g) (genres st)\<rparr> \<and>
      (distinct (map genre_id (genres st)) \<longrightarrow>
         Genre_findById (db (genre_delete_post st req)) (Str g) = None)) \<and>
   (field (body req) ''bookid'' = Str b \<and> b \<noteq> params_id req \<and>
    BookInstance_find_book st (Str (params_id req)) = [] \<longrightarrow>
      calls (book_delete_post st req) = [Redirect ''/catalog/books''] \<and>
      writes (book_delete_post st req) = [FindByIdAndRemove Book (Str b)] \<and>
      db (book_delete_post st req) =
        st\<lparr>books := remove_first (\<lambda>x. book_id x = b) (books st)\<rparr> \<and>
      (distinct (map book_id (books st)) \<longrightarrow>
         Book_findById (db (book_delete_post st req)) (Str b) = None)) \<and>
   (field (body req) ''authorid'' = Str a \<longrightarrow>
      author_delete_post st req =
        (if Book_find_author st (Str a) \<noteq> []
         then \<lparr>calls = [Render ''author_delete''
                 [(''title'', DStr ''Delete Author''),
                  (''author'', nullable DAuthor (Author_findById st (Str a))),
                  (''author_books'', DBooks (Book_find_author st (Str a)))]],
               db = st, writes = []\<rparr>
         else \<lparr>calls = [Redirect ''/catalog/authors''],
               db = st\<lparr>authors := remove_first (\<lambda>x. author_id x = a) (authors st)\<rparr>,
               writes = [FindByIdAndRemove Author (Str a)]\<rparr>))"
  by (simp add: genre_delete_post_def book_delete_post_def author_delete_post_def Let_def
      reply_def Genre_findByIdAndRemove_def Book_findByIdAndRemove_def
      Author_findByIdAndRemove_def Genre_findById_def Book_findById_def find_remove_first)

theorem delete_post_path_and_body_ids_witness:
  "Book_find_genre catalog (Str ''g2'') = [] \<and>
   Book_find_genre catalog (Str ''g1'') \<noteq> [] \<and>
   genres (db (genre_delete_post catalog \<lparr>params_id = ''g2'', body = [(''genreid'', Str ''g1'')]\<rparr>)) =
     [\<lparr>genre_id = ''g2'', name = Str ''Poetry''\<rparr>] \<and>
   BookInstance_find_book catalog (Str ''b9'') = [] \<and>
   BookInstance_find_book catalog (Str ''b1'') \<noteq> [] \<and>
   map book_id (books (db (book_delete_post catalog
      \<lparr>params_id = ''b9'', body = [(''bookid'', Str ''b1'')]\<rparr>))) = [''b2''] \<and>
   Book_find_author catalog (Str ''a2'') = [] \<and>
   authors (db (author_delete_post catalog
      \<lparr>params_id = ''a1'', body = [(''authorid'', Str ''a2'')]\<rparr>)) =
     [\<lparr>author_id = ''a1'', first_name = Str ''Ann'', family_name = Str ''Lee'',
       date_of_birth = Undefined, date_of_death = Undefined\<rparr>]"
proof -
  have h: "Book_find_genre catalog (Str ''g2'') = []"
      "Book_find_genre catalog (Str ''g1'') \<noteq> []"
      "BookInstance_find_book catalog (Str ''b9'') = []"
      "BookInstance_find_book catalog (Str ''b1'') \<noteq> []"
      "Book_find_author catalog (Str ''a2'') = []"
    by (simp_all add: catalog_def store_ops)
  have f: "field [(''genreid'', Str ''g1'')] ''genreid'' = Str ''g1''"
      "field [(''bookid'', Str ''b1'')] ''bookid'' = Str ''b1''"
      "field [(''authorid'', Str ''a2'')] ''authorid'' = Str ''a2''"
    by (simp_all add: field_def)
  show ?thesis
    using h f
      delete_post_path_and_body_ids
        [of "\<lparr>params_id = ''g2'', body = [(''genreid'', Str ''g1'')]\<rparr>" "''g1''" catalog]
      delete_post_path_and_body_ids
        [of "\<lparr>params_id = ''b9'', body = [(''bookid'', Str ''b1'')]\<rparr>" _ catalog "''b1''"]
      delete_post_path_and_body_ids
        [of "\<lparr>params_id = ''a1'', body = [(''authorid'', Str ''a2'')]\<rparr>" _ catalog _ "''a2''"]
    by (simp add: catalog_def)
qed

section \<open>Update keeps the identifier\<close>

text \<open>
  C7: in every update-POST (Author, Book, Genre, BookInstance) the candidate carries the
  path id as its identifier, and the handler persists through update-by-id only, never
  through an insert. With valid input the handler issues exactly one write,
  \<open>findByIdAndUpdate\<close> on the path id, which puts the candidate in the place of the
  document of that id; when that document exists, the store then holds the candidate
  under the path id and the response redirects to its location. With invalid input the
  form is rendered again with the candidate and nothing is written. The identifiers of
  the collection are the same before and after. (The Genre handler writes when no genre
  has the submitted name, and writes nothing when one has.)
\<close>

theorem update_post_keeps_identity:
  "(author_id (author_candidate L req) = params_id req \<and>
    map author_id (authors (db (author_update_post L st req))) = map author_id (authors st) \<and>
    (snd (validationResult (author_rules L) (body req)) = [] \<longrightarrow>
       writes (author_update_post L st req) = [FindByIdAndUpdate Author (params_id req)] \<and>
       db (author_update_post L st req) =
         st\<lparr>authors := replace_first (\<lambda>a. author_id a = params_id req)
                           (author_candidate L req) (authors st)\<rparr> \<and>
       (Author_findById st (Str (params_id req)) \<noteq> None \<longrightarrow>
          Author_findById (db (author_update_post L st req)) (Str (params_id req)) =
            Some (author_candidate L req) \<and>
          calls (author_update_post L st req) = [Redirect (url Author (params_id req))])) \<and>
    (snd (validationResult (author_rules L) (body req)) \<noteq> [] \<longrightarrow>
       author_update_post L st req =
         \<lparr>calls = [Render ''author_form''
                     [(''title'', DStr ''Update Author''),
                      (''author'', DAuthor (author_candidate L req)),
                      (''errors'', DErrors (snd (validationResult (author_rules L) (body req))))]],
          db = st, writes = []\<rparr>)) \<and>
   (book_id (book_candidate req) = params_id req \<and>
    map book_id (books (db (book_update_post st req))) = map book_id (books st) \<and>
    (snd (validationResult book_rules (genre_to_array (body req))) = [] \<longrightarrow>
       writes (book_update_post st req) = [FindByIdAndUpdate Book (params_id req)] \<and>
       db (book_update_post st req) =
         st\<lparr>books := replace_first (\<lambda>b. book_id b = params_id req)
                         (book_candidate req) (books st)\<rparr> \<and>
       (Book_findById st (Str (params_id req)) \<noteq> None \<longrightarrow>
          Book_findById (db (book_update_post st req)) (Str (params_id req)) =
            Some (book_candidate req) \<and>
          calls (book_update_post st req) = [Redirect (url Book (params_id req))])) \<and>
    (snd (validationResult book_rules (genre_to_array (body req))) \<noteq> [] \<longrightarrow>
       book_update_post st req =
         \<lparr>calls = [Render ''book_form''
                     [(''title'', DStr ''Update Book''),
                      (''authors'', DAuthors (authors st)),
                      (''genres'',
                         DGenres (map (\<lambda>g. (g, selected (book_genre (book_candidate req))
                                                  (genre_id g))) (genres st))),
                      (''book'', DBook (book_candidate req)),
                      (''errors'',
                         DErrors (snd (validationResult book_rules
                                         (genre_to_array (body req)))))]],
          db = st, writes = []\<rparr>)) \<and>
   (genre_id (genre_candidate req) = params_id req \<and>
    map genre_id (genres (db (genre_update_post st req))) = map genre_id (genres st) \<and>
    (snd (validationResult genre_rules (body req)) = [] \<and>
     Genre_findOne_name st (sanitized (field (body req) ''name'')) = None \<longrightarrow>
       writes (genre_update_post st req) = [FindByIdAndUpdate Genre (params_id req)] \<and>
       db (genre_update_post st req) =
         st\<lparr>genres := replace_first (\<lambda>g. genre_id g = params_id req)
                          (genre_candidate req) (genres st)\<rparr> \<and>
       (Genre_findById st (Str (params_id req)) \<noteq> None \<longrightarrow>
          Genre_findById (db (genre_update_post st req)) (Str (params_id req)) =
            Some (genre_candidate req) \<and>
          calls (genre_update_post st req) = [Redirect (url Genre (params_id req))])) \<and>
    (snd (validationResult genre_rules (body req)) = [] \<and>
     Genre_findOne_name st (sanitized (field (body req) ''name'')) \<noteq> None \<longrightarrow>
       db (genre_update_post st req) = st \<and> writes (genre_update_post st req) = []) \<and>
    (snd (validationResult genre_rules (body req)) \<noteq> [] \<longrightarrow>
       genre_update_post st req =
         \<lparr>calls = [Render ''genre_form''
                     [(''title'', DStr ''Update Genre''),
                      (''genre'', DGenre (genre_candidate req)),
                      (''errors'', DErrors (snd (validationResult genre_rules (body req))))]],
          db = st, writes = []\<rparr>)) \<and>
   (instance_id (bookinstance_candidate L req) = params_id req \<and>
    map instance_id (bookinstances (db (bookinstance_update_post L st req))) =
      map instance_id (bookinstances st) \<and>
    (bookinstance_errors L (body req) = [] \<longrightarrow>
       writes (bookinstance_update_post L st req) =
         [FindByIdAndUpdate BookInstance (params_id req)] \<and>
       db (bookinstance_update_post L st req) =
         st\<lparr>bookinstances := replace_first (\<lambda>c. instance_id c = params_id req)
                                 (bookinstance_candidate L req) (bookinstances st)\<rparr> \<and>
       (BookInstance_findById st (Str (params_id req)) \<noteq> None \<longrightarrow>
          BookInstance_findById (db (bookinstance_update_post L st req)) (Str (params_id req)) =
            Some (bookinstance_candidate L req) \<and>
          calls (bookinstance_update_post L st req) =
            [Redirect (url BookInstance (params_id req))])) \<and>
    (bookinstance_errors L (body req) \<noteq> [] \<longrightarrow>
       bookinstance_update_post L st req =
         \<lparr>calls = [Render ''bookinstance_form''
                     [(''title'', DStr ''Update Book Instance''),
                      (''books'', DBooks (books st)),
                      (''statuses'', DStrs enumValues),
                      (''bookinstance'', DInstance (bookinstance_candidate L req)),
                      (''errors'', DErrors (bookinstance_errors L (body req)))]],
          db = st, writes = []\<rparr>))"
  (is "?A \<and> ?B \<and> ?G \<and> ?C")
proof -
  have A: ?A
  proof (cases "snd (validationResult (author_rules L) (body req)) = []")
    case True
    then show ?thesis
      by (auto simp add: author_update_post_valid [OF True] author_candidate_def
          map_replace_first Author_findById_def find_replace_first split: option.splits)
  next
    case False
    then show ?thesis
      by (simp add: author_update_post_invalid [OF False] author_candidate_def)
  qed
  have B: ?B
  proof (cases "snd (validationResult book_rules (genre_to_array (body req))) = []")
    case True
    then show ?thesis
      by (auto simp add: book_update_post_valid [OF True] book_candidate_def
          map_replace_first Book_findById_def find_replace_first split: option.splits)
  next
    case False
    then show ?thesis
      by (simp add: book_update_post_invalid [OF False] book_candidate_def)
  qed
  have G: ?G
  proof (cases "snd (validationResult genre_rules (body req)) = []")
    case True
    then show ?thesis
      by (auto simp add: genre_update_post_valid [OF True] genre_candidate_def
          map_replace_first Genre_findById_def find_replace_first split: option.splits)
  next
    case False
    then show ?thesis
      by (simp add: genre_update_post_invalid [OF False] genre_candidate_def)
  qed
  have C: ?C
  proof (cases "bookinstance_errors L (body req) = []")
    case True
    then show ?thesis
      by (auto simp add: bookinstance_update_post_valid [OF True] bookinstance_candidate_def
          map_replace_first BookInstance_findById_def find_replace_first split: option.splits)
  next
    case False
    then show ?thesis
      by (simp add: bookinstance_update_post_invalid [OF False] bookinstance_candidate_def)
  qed
  from A B G C show ?thesis
    by (rule conjI [OF _ conjI [OF _ conjI]])
qed

theorem update_post_keeps_identity_witness:
  "snd (validationResult (author_rules ten_chars)
      [(''first_name'', Str ''Anna''), (''family_name'', Str ''Lee'')]) = [] \<and>
   Author_findById catalog (Str ''a1'') \<noteq> None \<and>
   writes (author_update_post ten_chars catalog
      \<lparr>params_id = ''a1'',
       body = [(''first_name'', Str ''Anna''), (''family_name'', Str ''Lee'')]\<rparr>) =
     [FindByIdAndUpdate Author ''a1''] \<and>
   calls (author_update_post ten_chars catalog
      \<lparr>params_id = ''a1'',
       body = [(''first_name'', Str ''Anna''), (''family_name'', Str ''Lee'')]\<rparr>) =
     [Redirect ''/catalog/authors/a1''] \<and>
   authors (db (author_update_post ten_chars catalog
      \<lparr>params_id = ''a1'',
       body = [(''first_name'', Str ''Anna''), (''family_name'', Str ''Lee'')]\<rparr>)) =
     [\<lparr>author_id = ''a1'', first_name = Str ''Anna'', family_name = Str ''Lee'',
       date_of_birth = Undefined, date_of_death = Undefined\<rparr>,
      \<lparr>author_id = ''a2'', first_name = Str ''Bo'', family_name = Str ''Ray'',
       date_of_birth = Undefined, date_of_death = Undefined\<rparr>] \<and>
   snd (validationResult genre_rules []) \<noteq> [] \<and>
   genre_update_post catalog \<lparr>params_id = ''g1'', body = []\<rparr> =
     \<lparr>calls = [Render ''genre_form''
                 [(''title'', DStr ''Update Genre''),
                  (''genre'', DGenre \<lparr>genre_id = ''g1'', name = Str []\<rparr>),
                  (''errors'', DErrors [required_error ''name'' ''Genre name required''])]],
      db = catalog, writes = []\<rparr>"
proof -
  let ?a = "[(''first_name'', Str ''Anna''), (''family_name'', Str ''Lee'')]"
  have t: "trim ''Anna'' = ''Anna''" "trim ''Lee'' = ''Lee''" "trim [] = []"
    by (simp_all add: trim_def whitespace_def)
  have e: "escape ''Anna'' = ''Anna''" "escape ''Lee'' = ''Lee''" "escape [] = []"
    by (simp_all add: escape_def escape_char_def)
  have al: "isAlphanumeric ''Anna''" "isAlphanumeric ''Lee''"
    by (simp_all add: isAlphanumeric_def alnum_def)
  have f: "field ?a ''first_name'' = Str ''Anna''" "field ?a ''family_name'' = Str ''Lee''"
      "field ?a ''date_of_birth'' = Undefined" "field ?a ''date_of_death'' = Undefined"
      "field [] ''name'' = Undefined"
    by (simp_all add: field_def)
  have va: "snd (validationResult (author_rules ten_chars) ?a) = []"
    by (simp add: author_rules_errors name_errors f t e al)
  have vg: "snd (validationResult genre_rules []) =
      [required_error ''name'' ''Genre name required'']"
    by (simp add: genre_rules_errors f t)
  have n: "Author_findById catalog (Str ''a1'') \<noteq> None"
    by (simp add: Author_findById_def catalog_def)
  have ca: "author_candidate ten_chars \<lparr>params_id = ''a1'', body = ?a\<rparr> =
      \<lparr>author_id = ''a1'', first_name = Str ''Anna'', family_name = Str ''Lee'',
       date_of_birth = Undefined, date_of_death = Undefined\<rparr>"
    by (simp add: author_candidate_def f t e sanitized_def optional_date_def)
  have cg: "genre_candidate \<lparr>params_id = ''g1'', body = []\<rparr> = \<lparr>genre_id = ''g1'', name = Str []\<rparr>"
    by (simp add: genre_candidate_def f t e sanitized_def)
  show ?thesis
    using va vg n
      update_post_keeps_identity [of ten_chars "\<lparr>params_id = ''a1'', body = ?a\<rparr>" catalog]
      update_post_keeps_identity [of ten_chars "\<lparr>params_id = ''g1'', body = []\<rparr>" catalog]
    by (simp add: ca cg catalog_def url_def plural_def)
qed

section \<open>Create with an empty required field\<close>

text \<open>
  C8: for every entity type, a create-POST in which a required field is empty renders
  the form again, neither a redirect nor an error. \<open>bookinstance_create_post\<close> reads
  \<open>bookinstance.book._id\<close> while it builds the data of the form: with an empty \<open>book\<close>
  there is no reference, the read throws, and the handler answers through \<open>next\<close>.
  Here it is run on a request whose \<open>book\<close> is the empty string, with every non-empty
  string taken as an identifier.
\<close>

theorem bookinstance_create_post_empty_book:
  "trim (toString (field [(''book'', Str []), (''imprint'', Str ''Ace''),
      (''status'', Str ''Available'')] ''book'')) = [] \<and>
   bookinstance_create_post (\<lambda>s. True) ten_chars ''c2'' catalog
     \<lparr>params_id = [],
      body = [(''book'', Str []), (''imprint'', Str ''Ace''), (''status'', Str ''Available'')]\<rparr> =
     \<lparr>calls = [Next (TypeError ''_id'')], db = catalog, writes = []\<rparr>"
proof -
  have h: "trim (toString (field [(''book'', Str []), (''imprint'', Str ''Ace''),
      (''status'', Str ''Available'')] ''book'')) = []"
    by (simp add: field_def trim_def)
  show ?thesis
    using h bookinstance_create_post_blank_book
      [of "\<lparr>params_id = [],
           body = [(''book'', Str []), (''imprint'', Str ''Ace''), (''status'', Str ''Available'')]\<rparr>"
        "\<lambda>s. True" ten_chars "''c2''" catalog]
    by simp
qed

text \<open>
  The Author, Book and Genre handlers, and the BookInstance handler when the submitted
  book is a reference, do render the form again: its data hold the error of the empty
  field and the submitted values, sanitized, and nothing is written.
\<close>

lemma create_post_renders_form_again:
  "((f, m) \<in> set (required_fields Author) \<and> trim (toString (field (body req) f)) = [] \<longrightarrow>
      calls (author_create_post L new_id st req) =
        [Render ''author_form''
           [(''title'', DStr ''Create Author''),
            (''author'', DBody (fst (validationResult (author_rules L) (body req)))),
            (''errors'', DErrors (snd (validationResult (author_rules L) (body req))))]] \<and>
      required_error f m \<in> set (snd (validationResult (author_rules L) (body req))) \<and>
      field (fst (validationResult (author_rules L) (body req))) ''first_name'' =
        sanitized (field (body req) ''first_name'') \<and>
      field (fst (validationResult (author_rules L) (body req))) ''family_name'' =
        sanitized (field (body req) ''family_name'') \<and>
      field (fst (validationResult (author_rules L) (body req))) ''date_of_birth'' =
        optional_date L (field (body req) ''date_of_birth'') \<and>
      field (fst (validationResult (author_rules L) (body req))) ''date_of_death'' =
        optional_date L (field (body req) ''date_of_death'') \<and>
      db (author_create_post L new_id st req) = st \<and>
      writes (author_create_post L new_id st req) = []) \<and>
   ((f, m) \<in> set (required_fields Book) \<and> trim (toString (field (body req) f)) = [] \<longrightarrow>
      calls (book_create_post new_id st req) =
        [Render ''book_form''
           [(''title'', DStr ''Create Book''),
            (''authors'', DAuthors (authors st)),
            (''genres'',
               DGenres (map (\<lambda>g. (g, selected (genre_selection (field (body req) ''genre''))
                                        (genre_id g))) (genres st))),
            (''book'', DBook
               \<lparr>book_id = new_id,
                title = sanitized (field (body req) ''title''),
                book_author = sanitized (field (body req) ''author''),
                summary = sanitized (field (body req) ''summary''),
                isbn = sanitized (field (body req) ''isbn''),
                book_genre = genre_selection (field (body req) ''genre'')\<rparr>),
            (''errors'',
               DErrors (snd (validationResult book_rules (genre_to_array (body req)))))]] \<and>
      required_error f m \<in> set (snd (validationResult book_rules (genre_to_array (body req)))) \<and>
      db (book_create_post new_id st req) = st \<and>
      writes (book_create_post new_id st req) = []) \<and>
   ((f, m) \<in> set (required_fields Genre) \<and> trim (toString (field (body req) f)) = [] \<longrightarrow>
      calls (genre_create_post new_id st req) =
        [Render ''genre_form''
           [(''title'', DStr ''Create Genre''),
            (''genre'', DGenre \<lparr>genre_id = new_id, name = sanitized (field (body req) ''name'')\<rparr>),
            (''errors'', DErrors (snd (validationResult genre_rules (body req))))]] \<and>
      required_error f m \<in> set (snd (validationResult genre_rules (body req))) \<and>
      db (genre_create_post new_id st req) = st \<and>
      writes (genre_create_post new_id st req) = []) \<and>
   ((f, m) \<in> set (required_fields BookInstance) \<and> trim (toString (field (body req) f)) = [] \<and>
    reference oid (sanitized (field (body req) ''book'')) = Str i \<longrightarrow>
      calls (bookinstance_create_post oid L new_id st req) =
        [Render ''bookinstance_form''
           [(''title'', DStr ''Create BookInstance''),
            (''books'', DBooks (map title_only (books st))),
            (''statuses'', DStrs enumValues),
            (''selected_book'', DJs (Str i)),
            (''errors'', DErrors (snd (validationResult (bookinstance_rules L) (body req)))),
            (''bookinstance'', DInstance
               \<lparr>instance_id = new_id,
                instance_book = sanitized (field (body req) ''book''),
                imprint = sanitized (field (body req) ''imprint''),
                status = Str (escape (toString (field (body req) ''status''))),
                due_back = optional_date L (field (body req) ''due_back'')\<rparr>)]] \<and>
      required_error f m \<in> set (snd (validationResult (bookinstance_rules L) (body req))) \<and>
      db (bookinstance_create_post oid L new_id st req) = st \<and>
      writes (bookinstance_create_post oid L new_id st req) = [])"
proof -
  {
  assume a: "(f, m) \<in> set (required_fields Author) \<and> trim (toString (field (body req) f)) = []"
  then have e: "required_error f m \<in> set (snd (validationResult (author_rules L) (body req)))"
    by (simp add: author_required)
  then have ne: "snd (validationResult (author_rules L) (body req)) \<noteq> []"
    by auto
  have "calls (author_create_post L new_id st req) =
        [Render ''author_form''
           [(''title'', DStr ''Create Author''),
            (''author'', DBody (fst (validationResult (author_rules L) (body req)))),
            (''errors'', DErrors (snd (validationResult (author_rules L) (body req))))]] \<and>
      required_error f m \<in> set (snd (validationResult (author_rules L) (body req))) \<and>
      field (fst (validationResult (author_rules L) (body req))) ''first_name'' =
        sanitized (field (body req) ''first_name'') \<and>
      field (fst (validationResult (author_rules L) (body req))) ''family_name'' =
        sanitized (field (body req) ''family_name'') \<and>
      field (fst (validationResult (author_rules L) (body req))) ''date_of_birth'' =
        optional_date L (field (body req) ''date_of_birth'') \<and>
      field (fst (validationResult (author_rules L) (body req))) ''date_of_death'' =
        optional_date L (field (body req) ''date_of_death'') \<and>
      db (author_create_post L new_id st req) = st \<and>
      writes (author_create_post L new_id st req) = []"
    using e ne
    by (simp add: author_create_post_def Let_def reply_def author_rules_field optional_date_def)
  }
  moreover
  {
  assume a: "(f, m) \<in> set (required_fields Book) \<and> trim (toString (field (body req) f)) = []"
  then have "trim (toString (field (genre_to_array (body req)) f)) = []"
    using required_in_genre_to_array [of f m "body req"] by simp
  with a have e: "required_error f m \<in>
      set (snd (validationResult book_rules (genre_to_array (body req))))"
    by (simp add: book_required)
  then have ne: "snd (validationResult book_rules (genre_to_array (body req))) \<noteq> []"
    by auto
  have "calls (book_create_post new_id st req) =
        [Render ''book_form''
           [(''title'', DStr ''Create Book''),
            (''authors'', DAuthors (authors st)),
            (''genres'',
               DGenres (map (\<lambda>g. (g, selected (genre_selection (field (body req) ''genre''))
                                        (genre_id g))) (genres st))),
            (''book'', DBook
               \<lparr>book_id = new_id,
                title = sanitized (field (body req) ''title''),
                book_author = sanitized (field (body req) ''author''),
                summary = sanitized (field (body req) ''summary''),
                isbn = sanitized (field (body req) ''isbn''),
                book_genre = genre_selection (field (body req) ''genre'')\<rparr>),
            (''errors'',
               DErrors (snd (validationResult book_rules (genre_to_array (body req)))))]] \<and>
      required_error f m \<in> set (snd (validationResult book_rules (genre_to_array (body req)))) \<and>
      db (book_create_post new_id st req) = st \<and>
      writes (book_create_post new_id st req) = []"
    using e ne
    by (simp add: book_create_post_def Let_def reply_def book_candidate_genre book_candidate_text)
  }
  moreover
  {
  assume a: "(f, m) \<in> set (required_fields Genre) \<and> trim (toString (field (body req) f)) = []"
  then have e: "required_error f m \<in> set (snd (validationResult genre_rules (body req)))"
    by (simp add: genre_required)
  then have ne: "snd (validationResult genre_rules (body req)) \<noteq> []"
    by auto
  have "calls (genre_create_post new_id st req) =
        [Render ''genre_form''
           [(''title'', DStr ''Create Genre''),
            (''genre'', DGenre \<lparr>genre_id = new_id, name = sanitized (field (body req) ''name'')\<rparr>),
            (''errors'', DErrors (snd (validationResult genre_rules (body req))))]] \<and>
      required_error f m \<in> set (snd (validationResult genre_rules (body req))) \<and>
      db (genre_create_post new_id st req) = st \<and>
      writes (genre_create_post new_id st req) = []"
    using e ne
    by (simp add: genre_create_post_def Let_def reply_def genre_rules_field)
  }
  moreover
  {
  assume a: "(f, m) \<in> set (required_fields BookInstance) \<and>
    trim (toString (field (body req) f)) = [] \<and>
    reference oid (sanitized (field (body req) ''book'')) = Str i"
  then have e: "required_error f m \<in>
      set (snd (validationResult (bookinstance_rules L) (body req)))"
    by (simp add: bookinstance_required)
  then have ne: "snd (validationResult (bookinstance_rules L) (body req)) \<noteq> []"
    by auto
  have "calls (bookinstance_create_post oid L new_id st req) =
        [Render ''bookinstance_form''
           [(''title'', DStr ''Create BookInstance''),
            (''books'', DBooks (map title_only (books st))),
            (''statuses'', DStrs enumValues),
            (''selected_book'', DJs (Str i)),
            (''errors'', DErrors (snd (validationResult (bookinstance_rules L) (body req)))),
            (''bookinstance'', DInstance
               \<lparr>instance_id = new_id,
                instance_book = sanitized (field (body req) ''book''),
                imprint = sanitized (field (body req) ''imprint''),
                status = Str (escape (toString (field (body req) ''status''))),
                due_back = optional_date L (field (body req) ''due_back'')\<rparr>)]] \<and>
      required_error f m \<in> set (snd (validationResult (bookinstance_rules L) (body req))) \<and>
      db (bookinstance_create_post oid L new_id st req) = st \<and>
      writes (bookinstance_create_post oid L new_id st req) = []"
    using a e ne
    by (simp add: bookinstance_create_post_def Let_def reply_def bookinstance_rules_field
        optional_date_def get_id_def)
  }
  ultimately show ?thesis
    by blast
qed

section \<open>Update of a document that does not exist\<close>

text \<open>
  C10 (as stated): every update-POST with fully valid input on a path id that names no
  document calls update-by-id, gets \<open>null\<close> and fails on reading its \<open>url\<close>. The Genre
  handler first looks for a genre of the submitted name: in the example catalogue the
  update of the missing genre \<open>g9\<close> to the name \<open>Poetry\<close> redirects to the genre
  \<open>g2\<close> of that name, without calling update-by-id and without an error.
\<close>

theorem genre_update_post_counterexample:
  "snd (validationResult genre_rules [(''name'', Str ''Poetry'')]) = [] \<and>
   Genre_findById catalog (Str ''g9'') = None \<and>
   genre_update_post catalog \<lparr>params_id = ''g9'', body = [(''name'', Str ''Poetry'')]\<rparr> =
     \<lparr>calls = [Redirect ''/catalog/genres/g2''], db = catalog, writes = []\<rparr>"
proof -
  have t: "trim ''Poetry'' = ''Poetry''"
    by (simp add: trim_def whitespace_def)
  have e: "escape ''Poetry'' = ''Poetry''"
    by (simp add: escape_def escape_char_def)
  have f: "field [(''name'', Str ''Poetry'')] ''name'' = Str ''Poetry''"
    by (simp add: field_def)
  show ?thesis
    by (simp add: genre_update_post_def Let_def genre_rules_errors genre_rules_field f t e
        sanitized_def Genre_findOne_name_def Genre_findById_def catalog_def reply_def url_def
        plural_def)
qed

text \<open>
  C10 (amended): an Author, Book or BookInstance update-POST with fully valid input on a
  path id that names no document does not answer with NotFound: update-by-id returns
  \<open>null\<close>, nothing is changed, and reading \<open>url\<close> of the result throws a TypeError
  that goes to \<open>next\<close>. The same holds for a Genre update-POST when no genre has the
  submitted name; when one has, the handler redirects to that genre and writes nothing.
\<close>

text \<open>
  C10 (amended): an Author, Book or BookInstance update-POST with fully valid input on a
  path id that names no document does not answer with NotFound: update-by-id returns
  \<open>null\<close>, nothing is changed, and reading \<open>url\<close> of the result throws a TypeError
  that goes to \<open>next\<close>. The same holds for a Genre update-POST when no genre has the
  submitted name. A valid Genre update-POST whose name is that of an existing genre
  redirects to that genre and writes nothing, whether or not the path id names a
  document.
\<close>

theorem update_post_missing_document:
  "(snd (validationResult (author_rules L) (body req)) = [] \<and>
    Author_findById st (Str (params_id req)) = None \<longrightarrow>
      author_update_post L st req =
        \<lparr>calls = [Next (TypeError ''url'')], db = st,
         writes = [FindByIdAndUpdate Author (params_id req)]\<rparr>) \<and>
   (snd (validationResult book_rules (genre_to_array (body req))) = [] \<and>
    Book_findById st (Str (params_id req)) = None \<longrightarrow>
      book_update_post st req =
        \<lparr>calls = [Next (TypeError ''url'')], db = st,
         writes = [FindByIdAndUpdate Book (params_id req)]\<rparr>) \<and>
   (bookinstance_errors L (body req) = [] \<and>
    BookInstance_findById st (Str (params_id req)) = None \<longrightarrow>
      bookinstance_update_post L st req =
        \<lparr>calls = [Next (TypeError ''url'')], db = st,
         writes = [FindByIdAndUpdate BookInstance (params_id req)]\<rparr>) \<and>
   (snd (validationResult genre_rules (body req)) = [] \<and>
    Genre_findOne_name st (sanitized (field (body req) ''name'')) = None \<and>
    Genre_findById st (Str (params_id req)) = None \<longrightarrow>
      genre_update_post st req =
        \<lparr>calls = [Next (TypeError ''url'')], db = st,
         writes = [FindByIdAndUpdate Genre (params_id req)]\<rparr>) \<and>
   (snd (validationResult genre_rules (body req)) = [] \<and>
    Genre_findOne_name st (sanitized (field (body req) ''name'')) = Some m \<longrightarrow>
      genre_update_post st req =
        \<lparr>calls = [Redirect (url Genre (genre_id m))], db = st, writes = []\<rparr>)"
  (is "?A \<and> ?B \<and> ?C \<and> ?G \<and> ?M")
proof -
  have A: ?A
    by (simp add: author_update_post_def Let_def Author_update_absent)
  have B: ?B
    by (simp add: book_update_post_def Let_def Book_update_absent)
  have C: ?C
  proof
    assume h: "bookinstance_errors L (body req) = [] \<and>
      BookInstance_findById st (Str (params_id req)) = None"
    then have "replace_first (\<lambda>c. instance_id c = params_id req) (bookinstance_candidate L req)
        (bookinstances st) = bookinstances st"
      by (simp add: BookInstance_findById_def replace_first_absent)
    with h show "bookinstance_update_post L st req =
        \<lparr>calls = [Next (TypeError ''url'')], db = st,
         writes = [FindByIdAndUpdate BookInstance (params_id req)]\<rparr>"
      by (simp add: bookinstance_update_post_valid)
  qed
  have G: ?G
    by (simp add: genre_update_post_def Let_def Genre_update_absent genre_rules_field)
  have M: ?M
    by (simp add: genre_update_post_def Let_def genre_rules_field reply_def)
  from A B C G M show ?thesis
    by (rule conjI [OF _ conjI [OF _ conjI [OF _ conjI]]])
qed

theorem update_post_missing_document_witness:
  "snd (validationResult (author_rules ten_chars)
      [(''first_name'', Str ''Ann''), (''family_name'', Str ''Lee'')]) = [] \<and>
   Author_findById catalog (Str ''a9'') = None \<and>
   calls (author_update_post ten_chars catalog
      \<lparr>params_id = ''a9'',
       body = [(''first_name'', Str ''Ann''), (''family_name'', Str ''Lee'')]\<rparr>) =
     [Next (TypeError ''url'')] \<and>
   snd (validationResult book_rules (genre_to_array
      [(''title'', Str ''Dune''), (''author'', Str ''a1''), (''summary'', Str ''Sand''),
       (''isbn'', Str ''1'')])) = [] \<and>
   Book_findById catalog (Str ''b9'') = None \<and>
   calls (book_update_post catalog
      \<lparr>params_id = ''b9'',
       body = [(''title'', Str ''Dune''), (''author'', Str ''a1''), (''summary'', Str ''Sand''),
               (''isbn'', Str ''1'')]\<rparr>) =
     [Next (TypeError ''url'')] \<and>
   bookinstance_errors ten_chars
      [(''book'', Str ''b1''), (''imprint'', Str ''Ace''), (''status'', Str ''Available'')] = [] \<and>
   BookInstance_findById catalog (Str ''c9'') = None \<and>
   calls (bookinstance_update_post ten_chars catalog
      \<lparr>params_id = ''c9'',
       body = [(''book'', Str ''b1''), (''imprint'', Str ''Ace''),
               (''status'', Str ''Available'')]\<rparr>) =
     [Next (TypeError ''url'')] \<and>
   snd (validationResult genre_rules [(''name'', Str ''Horror'')]) = [] \<and>
   Genre_findOne_name catalog (sanitized (field [(''name'', Str ''Horror'')] ''name'')) = None \<and>
   Genre_findById catalog (Str ''g9'') = None \<and>
   calls (genre_update_post catalog \<lparr>params_id = ''g9'', body = [(''name'', Str ''Horror'')]\<rparr>) =
     [Next (TypeError ''url'')] \<and>
   snd (validationResult genre_rules [(''name'', Str ''Poetry'')]) = [] \<and>
   Genre_findOne_name catalog (sanitized (field [(''name'', Str ''Poetry'')] ''name'')) =
     Some \<lparr>genre_id = ''g2'', name = Str ''Poetry''\<rparr> \<and>
   Genre_findById catalog (Str ''g1'') \<noteq> None \<and>
   genre_update_post catalog \<lparr>params_id = ''g1'', body = [(''name'', Str ''Poetry'')]\<rparr> =
     \<lparr>calls = [Redirect ''/catalog/genres/g2''], db = catalog, writes = []\<rparr>"
proof -
  let ?a = "[(''first_name'', Str ''Ann''), (''family_name'', Str ''Lee'')]"
  let ?b = "[(''title'', Str ''Dune''), (''author'', Str ''a1''), (''summary'', Str ''Sand''),
             (''isbn'', Str ''1'')]"
  let ?c = "[(''book'', Str ''b1''), (''imprint'', Str ''Ace''), (''status'', Str ''Available'')]"
  let ?g = "[(''name'', Str ''Horror'')]"
  let ?p = "[(''name'', Str ''Poetry'')]"
  have t: "trim ''Ann'' = ''Ann''" "trim ''Lee'' = ''Lee''" "trim ''Dune'' = ''Dune''"
      "trim ''a1'' = ''a1''" "trim ''Sand'' = ''Sand''" "trim ''1'' = ''1''"
      "trim ''b1'' = ''b1''" "trim ''Ace'' = ''Ace''" "trim ''Horror'' = ''Horror''"
      "trim ''Poetry'' = ''Poetry''"
    by (simp_all add: trim_def whitespace_def)
  have e: "escape ''Ann'' = ''Ann''" "escape ''Lee'' = ''Lee''" "escape ''Horror'' = ''Horror''"
      "escape ''Poetry'' = ''Poetry''"
    by (simp_all add: escape_def escape_char_def)
  have al: "isAlphanumeric ''Ann''" "isAlphanumeric ''Lee''"
    by (simp_all add: isAlphanumeric_def alnum_def)
  have va: "snd (validationResult (author_rules ten_chars) ?a) = []"
    by (simp add: author_rules_errors name_errors field_def t e al)
  have fb: "field (genre_to_array ?b) ''title'' = Str ''Dune''"
      "field (genre_to_array ?b) ''author'' = Str ''a1''"
      "field (genre_to_array ?b) ''summary'' = Str ''Sand''"
      "field (genre_to_array ?b) ''isbn'' = Str ''1''"
    by (simp_all add: field_genre_to_array) (simp_all add: field_def)
  have vb: "snd (validationResult book_rules (genre_to_array ?b)) = []"
    by (simp add: book_rules_errors fb t)
  have vc: "bookinstance_errors ten_chars ?c = []"
    by (simp add: bookinstance_errors_def bookinstance_rules_errors field_def t)
  have vg: "snd (validationResult genre_rules ?g) = []"
      "snd (validationResult genre_rules ?p) = []"
    by (simp_all add: genre_rules_errors field_def t)
  have n: "Author_findById catalog (Str ''a9'') = None" "Book_findById catalog (Str ''b9'') = None"
      "BookInstance_findById catalog (Str ''c9'') = None" "Genre_findById catalog (Str ''g9'') = None"
      "Genre_findById catalog (Str ''g1'') \<noteq> None"
    by (simp_all add: catalog_def store_ops)
  have m: "Genre_findOne_name catalog (sanitized (field ?g ''name'')) = None"
      "Genre_findOne_name catalog (sanitized (field ?p ''name'')) =
         Some \<lparr>genre_id = ''g2'', name = Str ''Poetry''\<rparr>"
    by (simp_all add: Genre_findOne_name_def sanitized_def field_def t e catalog_def)
  show ?thesis
    using va vb vc vg n m
      update_post_missing_document [of ten_chars "\<lparr>params_id = ''a9'', body = ?a\<rparr>" catalog]
      update_post_missing_document [of ten_chars "\<lparr>params_id = ''b9'', body = ?b\<rparr>" catalog]
      update_post_missing_document [of ten_chars "\<lparr>params_id = ''c9'', body = ?c\<rparr>" catalog]
      update_post_missing_document [of ten_chars "\<lparr>params_id = ''g9'', body = ?g\<rparr>" catalog]
      update_post_missing_document [of ten_chars "\<lparr>params_id = ''g1'', body = ?p\<rparr>" catalog
        "\<lparr>genre_id = ''g2'', name = Str ''Poetry''\<rparr>"]
    by (simp add: url_def plural_def)
qed

end
